theory Spec2Isabelle
  imports Complex_Main
begin

section \<open>Data model of \<open>src/market/MarketLayer.js\<close>\<close>

text \<open>
  The layer buys items on a marketplace: it looks offers up, tries them from the cheapest
  on, classifies the marketplace's answers and reads the state of a bought item from the
  operation history. Prices are integers (minor currency units). A JavaScript value that
  may be \<open>undefined\<close> or \<open>null\<close> is an \<open>option\<close>.
\<close>

text \<open>
  Modelled from the spec: the enumerations \<open>EErrorType\<close> and \<open>EErrorSource\<close> are not
  among the sources. These are the kinds and the sources of the spec's error taxonomy;
  the layer refers to every one of them by these names.
\<close>

datatype EErrorType =
    AttemptsFailed | NeedMoney | BadOfferPrice | NeedToTake | InvalidToken
  | InventoryClosed | UnableOfflineTrade | VacGameBan | BotCanceledTrades
  | CanceledTrades | RequestFailed | NotFound | TooHighPrices | HistoryFailed
  | UnknownStage

datatype EErrorSource = Market | Owner | User

text \<open>The value of \<open>Math.min\<close>: a number, or \<open>Infinity\<close> for no arguments.\<close>

datatype number = Num int | Infinity

text \<open>
  An offer as \<open>extractOffers\<close> builds it. \<open>offers\<close> is the listing count,
  \<open>Number(item.offers || item.count)\<close>, with \<open>None\<close> for \<open>NaN\<close>;
  \<open>min_price\<close> is absent until \<open>buyCheapest\<close> sets it.
\<close>

record offer =
  hashName :: string
  instanceId :: string
  classId :: string
  price :: int
  offers :: "int option"
  min_price :: "int option"

text \<open>
  An exception object, with the properties the layer reads and writes:
  \<open>isMiddlewareError\<close> is \<open>err instanceof MiddlewareError\<close>, and \<open>err_instance\<close> and
  \<open>err_marketId\<close> are the properties \<open>instance\<close> and \<open>marketId\<close>.
\<close>

record js_error =
  isMiddlewareError :: bool
  type :: "EErrorType option"
  source :: "EErrorSource option"
  errData :: "(string \<times> number) list"
  statusCode :: "int option"
  err_instance :: "offer option"
  err_marketId :: "int option"

text \<open>
  Modelled from the spec: the class \<open>MiddlewareError\<close> is not among the sources. The
  spec's \<open>DomainError\<close> has a kind, a source and a context; the layer calls
  \<open>MiddlewareError(message, type, source, errData)\<close>, with the source and the data left
  out at some calls, and the model keeps what it is called with, but for the message,
  which is a text for people. Such an error has no \<open>statusCode\<close>.
\<close>

definition MiddlewareError ::
  "EErrorType \<Rightarrow> EErrorSource option \<Rightarrow> (string \<times> number) list \<Rightarrow> js_error" where
  "MiddlewareError t s d =
     \<lparr>isMiddlewareError = True, type = Some t, source = s, errData = d,
      statusCode = None, err_instance = None, err_marketId = None\<rparr>"

text \<open>The error JavaScript raises when a property of \<open>undefined\<close> is read.\<close>

definition TypeError :: js_error where
  "TypeError =
     \<lparr>isMiddlewareError = False, type = None, source = None, errData = [],
      statusCode = None, err_instance = None, err_marketId = None\<rparr>"

record trade_data =
  partnerId :: string
  tradeToken :: string

text \<open>What \<open>_tryToBuy\<close> returns on success.\<close>

record purchase =
  uiId :: int
  bought_classId :: string
  bought_instanceId :: string
  bought_price :: int
  offerPrice :: "int option"

subsection \<open>The marketplace API\<close>

record response =
  success :: bool

record buy_response = response +
  response_id :: int

record 'd data_response = response +
  data :: 'd

text \<open>The object at \<open>error.response.body.error\<close> of a rejected purchase call.\<close>

record market_error =
  error :: "string option"
  result :: "string option"

text \<open>
  A rejection of the purchase call, by how far \<open>error.response.body.error\<close> can be read:
  no \<open>response\<close> (a network failure, or a plain \<open>Error\<close>), a response with no
  \<open>body\<close>, a body with no \<open>error\<close>, or the error object.
\<close>

datatype rejection = NoResponse | NoBody | NoErrorField | ErrorBody market_error

datatype buy_reply = Resolved buy_response | Rejected rejection

record 'r raw_item =
  item_price :: int
  item_offers :: "int option"
  item_count :: "int option"
  item_rest :: 'r

record item_ids =
  ids_instanceId :: string
  ids_classId :: string

record history_event =
  item_id :: int
  stage :: int
  event :: string

text \<open>
  The module \<open>MarketApi\<close> is not among the sources: its remote calls are functions of a
  state of the marketplace \<open>'w\<close>, which they return changed, and its two static helpers
  are functions of a raw item. The options of the HTTP client (retries) are not modelled.
\<close>

record ('w, 'r) MarketApi =
  buyV2CreateFor :: "'w \<Rightarrow> offer \<Rightarrow> int \<Rightarrow> trade_data option \<Rightarrow> buy_reply \<times> 'w"
  searchV2ItemByHash :: "'w \<Rightarrow> string \<Rightarrow> ('r raw_item list option) data_response \<times> 'w"
  accountV2GetHistory :: "'w \<Rightarrow> int \<Rightarrow> int \<Rightarrow> (history_event list) data_response \<times> 'w"
  getItemIds :: "'r raw_item \<Rightarrow> item_ids"
  getItemHash :: "'r raw_item \<Rightarrow> string"

text \<open>
  What the layer reads of the JavaScript runtime and of the two enumerations that are not
  among the sources: the time zone offset of a date (minutes), the clock, the name of the
  buy event in \<open>EMarketEventType\<close>, and \<open>EMarketEventStage.has\<close>.
\<close>

record 'w runtime =
  getTimezoneOffset :: "int \<Rightarrow> int"
  Date_now :: "'w \<Rightarrow> int"
  EMarketEventType_BuyV2 :: string
  EMarketEventStage_has :: "int \<Rightarrow> bool"

record CMarketConfig =
  hackExpiredOffers :: bool
  applyDiscounts :: bool
  handleTimezone :: bool
  preparePrice :: "int \<Rightarrow> int"

text \<open>The fields of a \<open>MarketLayer\<close>: \<open>_config\<close>, \<open>api\<close>, \<open>_wallet\<close>, \<open>_buyDiscount\<close>.\<close>

record ('w, 'r) MarketLayer =
  config :: CMarketConfig
  api :: "('w, 'r) MarketApi"
  wallet :: "int option"
  buyDiscount :: "rat option"

text \<open>
  The marketplace during a run: its state, and a log of the remote calls issued so far,
  each purchase call with its reply (the log is not in the program; it makes "no call was
  issued" a statement).
\<close>

record buy_call =
  call_instance :: offer
  call_price :: int
  call_tradeData :: "trade_data option"
  call_reply :: buy_reply

record 'w remote =
  world :: 'w
  buy_calls :: "buy_call list"
  search_calls :: "string list"
  history_calls :: "(int \<times> int) list"

subsection \<open>The table \<open>EMarketMessage\<close>\<close>

text \<open>
  The messages of the marketplace, as UTF-8 bytes; JavaScript compares strings by value,
  and so does the model.
\<close>

definition EMarketMessage_Ok :: string where
  "EMarketMessage_Ok = ''ok''"

definition EMarketMessage_TooEarlyToPong :: string where
  "EMarketMessage_TooEarlyToPong = ''too early for pong''"

definition EMarketMessage_CheckTokenOrMobile :: string where
  "EMarketMessage_CheckTokenOrMobile = ''token_check_or_mobile_authenticator''"

definition EMarketMessage_RequestErrorNoItems :: string where
  "EMarketMessage_RequestErrorNoItems =
    [CHR 0xD0, CHR 0x9E, CHR 0xD1, CHR 0x88, CHR 0xD0, CHR 0xB8, CHR 0xD0, CHR 0xB1,
     CHR 0xD0, CHR 0xBA, CHR 0xD0, CHR 0xB0, CHR 0x20, CHR 0xD1, CHR 0x81, CHR 0xD0,
     CHR 0xBE, CHR 0xD0, CHR 0xB7, CHR 0xD0, CHR 0xB4, CHR 0xD0, CHR 0xB0, CHR 0xD0,
     CHR 0xBD, CHR 0xD0, CHR 0xB8, CHR 0xD1, CHR 0x8F, CHR 0x20, CHR 0xD0, CHR 0xB7,
     CHR 0xD0, CHR 0xB0, CHR 0xD1, CHR 0x8F, CHR 0xD0, CHR 0xB2, CHR 0xD0, CHR 0xBA,
     CHR 0xD0, CHR 0xB8, CHR 0x3A, CHR 0x20, CHR 0xD0, CHR 0xA3, CHR 0x20, CHR 0xD0,
     CHR 0xB2, CHR 0xD0, CHR 0xB0, CHR 0xD1, CHR 0x81, CHR 0x20, CHR 0xD0, CHR 0xBD,
     CHR 0xD0, CHR 0xB5, CHR 0xD1, CHR 0x82, CHR 0x20, CHR 0xD0, CHR 0xB2, CHR 0xD0,
     CHR 0xB5, CHR 0xD1, CHR 0x89, CHR 0xD0, CHR 0xB5, CHR 0xD0, CHR 0xB9, CHR 0x20,
     CHR 0xD0, CHR 0xB4, CHR 0xD0, CHR 0xBB, CHR 0xD1, CHR 0x8F, CHR 0x20, CHR 0xD0,
     CHR 0xBF, CHR 0xD0, CHR 0xB5, CHR 0xD1, CHR 0x80, CHR 0xD0, CHR 0xB5, CHR 0xD0,
     CHR 0xB4, CHR 0xD0, CHR 0xB0, CHR 0xD1, CHR 0x87, CHR 0xD0, CHR 0xB8]"

definition EMarketMessage_RequestErrorWrongBotId :: string where
  "EMarketMessage_RequestErrorWrongBotId =
    [CHR 0xD0, CHR 0x9E, CHR 0xD1, CHR 0x88, CHR 0xD0, CHR 0xB8, CHR 0xD0, CHR 0xB1,
     CHR 0xD0, CHR 0xBA, CHR 0xD0, CHR 0xB0, CHR 0x20, CHR 0xD1, CHR 0x81, CHR 0xD0,
     CHR 0xBE, CHR 0xD0, CHR 0xB7, CHR 0xD0, CHR 0xB4, CHR 0xD0, CHR 0xB0, CHR 0xD0,
     CHR 0xBD, CHR 0xD0, CHR 0xB8, CHR 0xD1, CHR 0x8F, CHR 0x20, CHR 0xD0, CHR 0xB7,
     CHR 0xD0, CHR 0xB0, CHR 0xD1, CHR 0x8F, CHR 0xD0, CHR 0xB2, CHR 0xD0, CHR 0xBA,
     CHR 0xD0, CHR 0xB8, CHR 0x3A, CHR 0x20, CHR 0xD0, CHR 0x9D, CHR 0xD0, CHR 0xB5,
     CHR 0xD0, CHR 0xBF, CHR 0xD1, CHR 0x80, CHR 0xD0, CHR 0xB0, CHR 0xD0, CHR 0xB2,
     CHR 0xD0, CHR 0xB8, CHR 0xD0, CHR 0xBB, CHR 0xD1, CHR 0x8C, CHR 0xD0, CHR 0xBD,
     CHR 0xD1, CHR 0x8B, CHR 0xD0, CHR 0xB9, CHR 0x20, CHR 0xD0, CHR 0xBD, CHR 0xD0,
     CHR 0xBE, CHR 0xD0, CHR 0xBC, CHR 0xD0, CHR 0xB5, CHR 0xD1, CHR 0x80, CHR 0x20,
     CHR 0xD0, CHR 0xB1, CHR 0xD0, CHR 0xBE, CHR 0xD1, CHR 0x82, CHR 0xD0, CHR 0xB0]"

definition EMarketMessage_RequestErrorItemListFail :: string where
  "EMarketMessage_RequestErrorItemListFail =
    [CHR 0xD0, CHR 0x9E, CHR 0xD1, CHR 0x88, CHR 0xD0, CHR 0xB8, CHR 0xD0, CHR 0xB1,
     CHR 0xD0, CHR 0xBA, CHR 0xD0, CHR 0xB0, CHR 0x20, CHR 0xD1, CHR 0x81, CHR 0xD0,
     CHR 0xBE, CHR 0xD0, CHR 0xB7, CHR 0xD0, CHR 0xB4, CHR 0xD0, CHR 0xB0, CHR 0xD0,
     CHR 0xBD, CHR 0xD0, CHR 0xB8, CHR 0xD1, CHR 0x8F, CHR 0x20, CHR 0xD0, CHR 0xB7,
     CHR 0xD0, CHR 0xB0, CHR 0xD1, CHR 0x8F, CHR 0xD0, CHR 0xB2, CHR 0xD0, CHR 0xBA,
     CHR 0xD0, CHR 0xB8, CHR 0x3A, CHR 0x20, CHR 0xD0, CHR 0x9D, CHR 0xD0, CHR 0xB5,
     CHR 0x20, CHR 0xD1, CHR 0x83, CHR 0xD0, CHR 0xB4, CHR 0xD0, CHR 0xB0, CHR 0xD0,
     CHR 0xBB, CHR 0xD0, CHR 0xBE, CHR 0xD1, CHR 0x81, CHR 0xD1, CHR 0x8C, CHR 0x20,
     CHR 0xD0, CHR 0xBF, CHR 0xD0, CHR 0xBE, CHR 0xD0, CHR 0xBB, CHR 0xD1, CHR 0x83,
     CHR 0xD1, CHR 0x87, CHR 0xD0, CHR 0xB8, CHR 0xD1, CHR 0x82, CHR 0xD1, CHR 0x8C,
     CHR 0x20, CHR 0xD1, CHR 0x81, CHR 0xD0, CHR 0xBF, CHR 0xD0, CHR 0xB8, CHR 0xD1,
     CHR 0x81, CHR 0xD0, CHR 0xBE, CHR 0xD0, CHR 0xBA, CHR 0x20, CHR 0xD0, CHR 0xBF,
     CHR 0xD1, CHR 0x80, CHR 0xD0, CHR 0xB5, CHR 0xD0, CHR 0xB4, CHR 0xD0, CHR 0xBC,
     CHR 0xD0, CHR 0xB5, CHR 0xD1, CHR 0x82, CHR 0xD0, CHR 0xBE, CHR 0xD0, CHR 0xB2]"

definition EMarketMessage_RequestUnexpectedError :: string where
  "EMarketMessage_RequestUnexpectedError =
    [CHR 0xD0, CHR 0x9E, CHR 0xD1, CHR 0x88, CHR 0xD0, CHR 0xB8, CHR 0xD0, CHR 0xB1,
     CHR 0xD0, CHR 0xBA, CHR 0xD0, CHR 0xB0, CHR 0x20, CHR 0xD1, CHR 0x81, CHR 0xD0,
     CHR 0xBE, CHR 0xD0, CHR 0xB7, CHR 0xD0, CHR 0xB4, CHR 0xD0, CHR 0xB0, CHR 0xD0,
     CHR 0xBD, CHR 0xD0, CHR 0xB8, CHR 0xD1, CHR 0x8F, CHR 0x20, CHR 0xD0, CHR 0xB7,
     CHR 0xD0, CHR 0xB0, CHR 0xD1, CHR 0x8F, CHR 0xD0, CHR 0xB2, CHR 0xD0, CHR 0xBA,
     CHR 0xD0, CHR 0xB8, CHR 0x3A, CHR 0x20, CHR 0x45, CHR 0x78, CHR 0x63, CHR 0x65,
     CHR 0x70, CHR 0x74, CHR 0x69, CHR 0x6F, CHR 0x6E]"

definition EMarketMessage_NeedMoney :: string where
  "EMarketMessage_NeedMoney =
    [CHR 0xD0, CHR 0x9D, CHR 0xD0, CHR 0xB5, CHR 0xD0, CHR 0xB4, CHR 0xD0, CHR 0xBE,
     CHR 0xD1, CHR 0x81, CHR 0xD1, CHR 0x82, CHR 0xD0, CHR 0xB0, CHR 0xD1, CHR 0x82,
     CHR 0xD0, CHR 0xBE, CHR 0xD1, CHR 0x87, CHR 0xD0, CHR 0xBD, CHR 0xD0, CHR 0xBE,
     CHR 0x20, CHR 0xD1, CHR 0x81, CHR 0xD1, CHR 0x80, CHR 0xD0, CHR 0xB5, CHR 0xD0,
     CHR 0xB4, CHR 0xD1, CHR 0x81, CHR 0xD1, CHR 0x82, CHR 0xD0, CHR 0xB2, CHR 0x20,
     CHR 0xD0, CHR 0xBD, CHR 0xD0, CHR 0xB0, CHR 0x20, CHR 0xD1, CHR 0x81, CHR 0xD1,
     CHR 0x87, CHR 0xD0, CHR 0xB5, CHR 0xD1, CHR 0x82, CHR 0xD1, CHR 0x83]"

definition EMarketMessage_NeedToTake :: string where
  "EMarketMessage_NeedToTake =
    [CHR 0xD0, CHR 0x92, CHR 0xD1, CHR 0x8B, CHR 0x20, CHR 0xD0, CHR 0xBD, CHR 0xD0,
     CHR 0xB5, CHR 0x20, CHR 0xD0, CHR 0xBC, CHR 0xD0, CHR 0xBE, CHR 0xD0, CHR 0xB6,
     CHR 0xD0, CHR 0xB5, CHR 0xD1, CHR 0x82, CHR 0xD0, CHR 0xB5, CHR 0x20, CHR 0xD0,
     CHR 0xBF, CHR 0xD0, CHR 0xBE, CHR 0xD0, CHR 0xBA, CHR 0xD1, CHR 0x83, CHR 0xD0,
     CHR 0xBF, CHR 0xD0, CHR 0xB0, CHR 0xD1, CHR 0x82, CHR 0xD1, CHR 0x8C, CHR 0x2C,
     CHR 0x20, CHR 0xD0, CHR 0xBF, CHR 0xD0, CHR 0xBE, CHR 0xD0, CHR 0xBA, CHR 0xD0,
     CHR 0xB0, CHR 0x20, CHR 0xD1, CHR 0x83, CHR 0x20, CHR 0xD0, CHR 0xB2, CHR 0xD0,
     CHR 0xB0, CHR 0xD1, CHR 0x81, CHR 0x20, CHR 0xD0, CHR 0xB5, CHR 0xD1, CHR 0x81,
     CHR 0xD1, CHR 0x82, CHR 0xD1, CHR 0x8C, CHR 0x20, CHR 0xD0, CHR 0xB4, CHR 0xD0,
     CHR 0xBE, CHR 0xD1, CHR 0x81, CHR 0xD1, CHR 0x82, CHR 0xD1, CHR 0x83, CHR 0xD0,
     CHR 0xBF, CHR 0xD0, CHR 0xBD, CHR 0xD1, CHR 0x8B, CHR 0xD0, CHR 0xB5, CHR 0x20,
     CHR 0xD0, CHR 0xB4, CHR 0xD0, CHR 0xBB, CHR 0xD1, CHR 0x8F, CHR 0x20, CHR 0xD0,
     CHR 0xB2, CHR 0xD1, CHR 0x8B, CHR 0xD0, CHR 0xB2, CHR 0xD0, CHR 0xBE, CHR 0xD0,
     CHR 0xB4, CHR 0xD0, CHR 0xB0, CHR 0x20, CHR 0xD0, CHR 0xBF, CHR 0xD1, CHR 0x80,
     CHR 0xD0, CHR 0xB5, CHR 0xD0, CHR 0xB4, CHR 0xD0, CHR 0xBC, CHR 0xD0, CHR 0xB5,
     CHR 0xD1, CHR 0x82, CHR 0xD1, CHR 0x8B, CHR 0x2E, CHR 0x0A, CHR 0xD0, CHR 0x92,
     CHR 0xD1, CHR 0x8B, CHR 0xD0, CHR 0xB2, CHR 0xD0, CHR 0xB5, CHR 0xD0, CHR 0xB4,
     CHR 0xD0, CHR 0xB8, CHR 0xD1, CHR 0x82, CHR 0xD0, CHR 0xB5, CHR 0x20, CHR 0xD0,
     CHR 0xB2, CHR 0xD1, CHR 0x81, CHR 0xD0, CHR 0xB5, CHR 0x20, CHR 0xD0, CHR 0xBF,
     CHR 0xD1, CHR 0x80, CHR 0xD0, CHR 0xB5, CHR 0xD0, CHR 0xB4, CHR 0xD0, CHR 0xBC,
     CHR 0xD0, CHR 0xB5, CHR 0xD1, CHR 0x82, CHR 0xD1, CHR 0x8B, CHR 0x20, CHR 0xD0,
     CHR 0xBD, CHR 0xD0, CHR 0xB0, CHR 0x20, CHR 0xD1, CHR 0x81, CHR 0xD1, CHR 0x82,
     CHR 0xD1, CHR 0x80, CHR 0xD0, CHR 0xB0, CHR 0xD0, CHR 0xBD, CHR 0xD0, CHR 0xB8,
     CHR 0xD1, CHR 0x86, CHR 0xD0, CHR 0xB5, CHR 0x20, CHR 0x22, CHR 0xD0, CHR 0x9C,
     CHR 0xD0, CHR 0xBE, CHR 0xD0, CHR 0xB8, CHR 0x20, CHR 0xD0, CHR 0xB2, CHR 0xD0,
     CHR 0xB5, CHR 0xD1, CHR 0x89, CHR 0xD0, CHR 0xB8, CHR 0x22]"

definition EMarketMessage_BadOfferPrice :: string where
  "EMarketMessage_BadOfferPrice =
    [CHR 0xD0, CHR 0x9F, CHR 0xD0, CHR 0xBE, CHR 0xD0, CHR 0xBA, CHR 0xD1, CHR 0x83,
     CHR 0xD0, CHR 0xBF, CHR 0xD0, CHR 0xBA, CHR 0xD0, CHR 0xB0, CHR 0x20, CHR 0xD0,
     CHR 0xB4, CHR 0xD0, CHR 0xB0, CHR 0xD0, CHR 0xBD, CHR 0xD0, CHR 0xBD, CHR 0xD0,
     CHR 0xBE, CHR 0xD0, CHR 0xB3, CHR 0xD0, CHR 0xBE, CHR 0x20, CHR 0xD0, CHR 0xBF,
     CHR 0xD1, CHR 0x80, CHR 0xD0, CHR 0xB5, CHR 0xD0, CHR 0xB4, CHR 0xD0, CHR 0xBC,
     CHR 0xD0, CHR 0xB5, CHR 0xD1, CHR 0x82, CHR 0xD0, CHR 0xB0, CHR 0x20, CHR 0xD0,
     CHR 0xBF, CHR 0xD0, CHR 0xBE, CHR 0x20, CHR 0xD1, CHR 0x82, CHR 0xD0, CHR 0xB0,
     CHR 0xD0, CHR 0xBA, CHR 0xD0, CHR 0xBE, CHR 0xD0, CHR 0xB9, CHR 0x20, CHR 0xD1,
     CHR 0x86, CHR 0xD0, CHR 0xB5, CHR 0xD0, CHR 0xBD, CHR 0xD0, CHR 0xB5, CHR 0x20,
     CHR 0xD0, CHR 0xBD, CHR 0xD0, CHR 0xB5, CHR 0xD0, CHR 0xB2, CHR 0xD0, CHR 0xBE,
     CHR 0xD0, CHR 0xB7, CHR 0xD0, CHR 0xBC, CHR 0xD0, CHR 0xBE, CHR 0xD0, CHR 0xB6,
     CHR 0xD0, CHR 0xBD, CHR 0xD0, CHR 0xB0, CHR 0x2E, CHR 0x20, CHR 0xD0, CHR 0x9E,
     CHR 0xD0, CHR 0xB1, CHR 0xD1, CHR 0x80, CHR 0xD0, CHR 0xB0, CHR 0xD1, CHR 0x82,
     CHR 0xD0, CHR 0xB8, CHR 0xD1, CHR 0x82, CHR 0xD0, CHR 0xB5, CHR 0xD1, CHR 0x81,
     CHR 0xD1, CHR 0x8C, CHR 0x20, CHR 0xD0, CHR 0xB2, CHR 0x20, CHR 0xD1, CHR 0x82,
     CHR 0xD0, CHR 0xB5, CHR 0xD1, CHR 0x85, CHR 0xD0, CHR 0xBF, CHR 0xD0, CHR 0xBE,
     CHR 0xD0, CHR 0xB4, CHR 0xD0, CHR 0xB4, CHR 0xD0, CHR 0xB5, CHR 0xD1, CHR 0x80,
     CHR 0xD0, CHR 0xB6, CHR 0xD0, CHR 0xBA, CHR 0xD1, CHR 0x83]"

definition EMarketMessage_RequestErrorNoList :: string where
  "EMarketMessage_RequestErrorNoList =
    [CHR 0xD0, CHR 0x9E, CHR 0xD1, CHR 0x88, CHR 0xD0, CHR 0xB8, CHR 0xD0, CHR 0xB1,
     CHR 0xD0, CHR 0xBA, CHR 0xD0, CHR 0xB0, CHR 0x20, CHR 0xD1, CHR 0x81, CHR 0xD0,
     CHR 0xBE, CHR 0xD0, CHR 0xB7, CHR 0xD0, CHR 0xB4, CHR 0xD0, CHR 0xB0, CHR 0xD0,
     CHR 0xBD, CHR 0xD0, CHR 0xB8, CHR 0xD1, CHR 0x8F, CHR 0x20, CHR 0xD0, CHR 0xB7,
     CHR 0xD0, CHR 0xB0, CHR 0xD1, CHR 0x8F, CHR 0xD0, CHR 0xB2, CHR 0xD0, CHR 0xBA,
     CHR 0xD0, CHR 0xB8, CHR 0x3A, CHR 0x20, CHR 0xD0, CHR 0x9D, CHR 0xD0, CHR 0xB5,
     CHR 0x20, CHR 0xD1, CHR 0x83, CHR 0xD0, CHR 0xB4, CHR 0xD0, CHR 0xB0, CHR 0xD0,
     CHR 0xBB, CHR 0xD0, CHR 0xBE, CHR 0xD1, CHR 0x81, CHR 0xD1, CHR 0x8C, CHR 0x20,
     CHR 0xD0, CHR 0xBF, CHR 0xD0, CHR 0xBE, CHR 0xD0, CHR 0xBB, CHR 0xD1, CHR 0x83,
     CHR 0xD1, CHR 0x87, CHR 0xD0, CHR 0xB8, CHR 0xD1, CHR 0x82, CHR 0xD1, CHR 0x8C,
     CHR 0x20, CHR 0xD1, CHR 0x81, CHR 0xD0, CHR 0xBF, CHR 0xD0, CHR 0xB8, CHR 0xD1,
     CHR 0x81, CHR 0xD0, CHR 0xBE, CHR 0xD0, CHR 0xBA, CHR 0x20, CHR 0xD0, CHR 0xBF,
     CHR 0xD1, CHR 0x80, CHR 0xD0, CHR 0xB5, CHR 0xD0, CHR 0xB4, CHR 0xD0, CHR 0xBC,
     CHR 0xD0, CHR 0xB5, CHR 0xD1, CHR 0x82, CHR 0xD0, CHR 0xBE, CHR 0xD0, CHR 0xB2]"

definition EMarketMessage_BuyOfferExpired :: string where
  "EMarketMessage_BuyOfferExpired =
    [CHR 0xD0, CHR 0x9A, CHR 0x20, CHR 0xD1, CHR 0x81, CHR 0xD0, CHR 0xBE, CHR 0xD0,
     CHR 0xB6, CHR 0xD0, CHR 0xB0, CHR 0xD0, CHR 0xBB, CHR 0xD0, CHR 0xB5, CHR 0xD0,
     CHR 0xBD, CHR 0xD0, CHR 0xB8, CHR 0xD1, CHR 0x8E, CHR 0x2C, CHR 0x20, CHR 0xD0,
     CHR 0xBF, CHR 0xD1, CHR 0x80, CHR 0xD0, CHR 0xB5, CHR 0xD0, CHR 0xB4, CHR 0xD0,
     CHR 0xBB, CHR 0xD0, CHR 0xBE, CHR 0xD0, CHR 0xB6, CHR 0xD0, CHR 0xB5, CHR 0xD0,
     CHR 0xBD, CHR 0xD0, CHR 0xB8, CHR 0xD0, CHR 0xB5, CHR 0x20, CHR 0xD1, CHR 0x83,
     CHR 0xD1, CHR 0x81, CHR 0xD1, CHR 0x82, CHR 0xD0, CHR 0xB0, CHR 0xD1, CHR 0x80,
     CHR 0xD0, CHR 0xB5, CHR 0xD0, CHR 0xBB, CHR 0xD0, CHR 0xBE, CHR 0x2E, CHR 0x20,
     CHR 0xD0, CHR 0x9E, CHR 0xD0, CHR 0xB1, CHR 0xD0, CHR 0xBD, CHR 0xD0, CHR 0xBE,
     CHR 0xD0, CHR 0xB2, CHR 0xD0, CHR 0xB8, CHR 0xD1, CHR 0x82, CHR 0xD0, CHR 0xB5,
     CHR 0x20, CHR 0xD1, CHR 0x81, CHR 0xD1, CHR 0x82, CHR 0xD1, CHR 0x80, CHR 0xD0,
     CHR 0xB0, CHR 0xD0, CHR 0xBD, CHR 0xD0, CHR 0xB8, CHR 0xD1, CHR 0x86, CHR 0xD1,
     CHR 0x83]"

definition EMarketMessage_SomebodyBuying :: string where
  "EMarketMessage_SomebodyBuying =
    [CHR 0xD0, CHR 0x9A, CHR 0xD1, CHR 0x82, CHR 0xD0, CHR 0xBE, CHR 0x2D, CHR 0xD1,
     CHR 0x82, CHR 0xD0, CHR 0xBE, CHR 0x20, CHR 0xD1, CHR 0x83, CHR 0xD0, CHR 0xB6,
     CHR 0xD0, CHR 0xB5, CHR 0x20, CHR 0xD0, CHR 0xBF, CHR 0xD0, CHR 0xBE, CHR 0xD0,
     CHR 0xBA, CHR 0xD1, CHR 0x83, CHR 0xD0, CHR 0xBF, CHR 0xD0, CHR 0xB0, CHR 0xD0,
     CHR 0xB5, CHR 0xD1, CHR 0x82, CHR 0x20, CHR 0xD1, CHR 0x8D, CHR 0xD1, CHR 0x82,
     CHR 0xD0, CHR 0xBE, CHR 0xD1, CHR 0x82, CHR 0x20, CHR 0xD0, CHR 0xBF, CHR 0xD1,
     CHR 0x80, CHR 0xD0, CHR 0xB5, CHR 0xD0, CHR 0xB4, CHR 0xD0, CHR 0xBC, CHR 0xD0,
     CHR 0xB5, CHR 0xD1, CHR 0x82, CHR 0x2E, CHR 0x20, CHR 0xD0, CHR 0x9F, CHR 0xD0,
     CHR 0xBE, CHR 0xD0, CHR 0xBF, CHR 0xD1, CHR 0x80, CHR 0xD0, CHR 0xBE, CHR 0xD0,
     CHR 0xB1, CHR 0xD1, CHR 0x83, CHR 0xD0, CHR 0xB9, CHR 0xD1, CHR 0x82, CHR 0xD0,
     CHR 0xB5, CHR 0x20, CHR 0xD0, CHR 0xB5, CHR 0xD1, CHR 0x89, CHR 0xD1, CHR 0x91]"

definition EMarketMessage_ServerError7 :: string where
  "EMarketMessage_ServerError7 =
    [CHR 0xD0, CHR 0x9E, CHR 0xD1, CHR 0x88, CHR 0xD0, CHR 0xB8, CHR 0xD0, CHR 0xB1,
     CHR 0xD0, CHR 0xBA, CHR 0xD0, CHR 0xB0, CHR 0x20, CHR 0xD1, CHR 0x81, CHR 0xD0,
     CHR 0xB5, CHR 0xD1, CHR 0x80, CHR 0xD0, CHR 0xB2, CHR 0xD0, CHR 0xB5, CHR 0xD1,
     CHR 0x80, CHR 0xD0, CHR 0xB0, CHR 0x20, CHR 0x37]"

definition EMarketMessage_SteamOrBotProblems :: string where
  "EMarketMessage_SteamOrBotProblems =
    [CHR 0xD0, CHR 0x92, CHR 0xD0, CHR 0xBE, CHR 0xD0, CHR 0xB7, CHR 0xD0, CHR 0xBC,
     CHR 0xD0, CHR 0xBE, CHR 0xD0, CHR 0xB6, CHR 0xD0, CHR 0xBD, CHR 0xD1, CHR 0x8B,
     CHR 0x20, CHR 0xD0, CHR 0xBF, CHR 0xD1, CHR 0x80, CHR 0xD0, CHR 0xBE, CHR 0xD0,
     CHR 0xB1, CHR 0xD0, CHR 0xBB, CHR 0xD0, CHR 0xB5, CHR 0xD0, CHR 0xBC, CHR 0xD1,
     CHR 0x8B, CHR 0x20, CHR 0xD1, CHR 0x81, CHR 0xD0, CHR 0xBE, CHR 0x20, CHR 0xD1,
     CHR 0x81, CHR 0xD1, CHR 0x82, CHR 0xD0, CHR 0xB8, CHR 0xD0, CHR 0xBC, CHR 0x20,
     CHR 0xD0, CHR 0xB8, CHR 0xD0, CHR 0xBB, CHR 0xD0, CHR 0xB8, CHR 0x20, CHR 0xD0,
     CHR 0xB1, CHR 0xD0, CHR 0xBE, CHR 0xD1, CHR 0x82, CHR 0xD0, CHR 0xBE, CHR 0xD0,
     CHR 0xBC, CHR 0x2C, CHR 0x20, CHR 0xD0, CHR 0xBF, CHR 0xD0, CHR 0xBE, CHR 0xD0,
     CHR 0xBF, CHR 0xD1, CHR 0x80, CHR 0xD0, CHR 0xBE, CHR 0xD0, CHR 0xB1, CHR 0xD1,
     CHR 0x83, CHR 0xD0, CHR 0xB9, CHR 0xD1, CHR 0x82, CHR 0xD0, CHR 0xB5, CHR 0x20,
     CHR 0xD0, CHR 0xBF, CHR 0xD0, CHR 0xBE, CHR 0xD0, CHR 0xB7, CHR 0xD0, CHR 0xB6,
     CHR 0xD0, CHR 0xB5, CHR 0x2E]"

definition EMarketMessage_BotIsBanned :: string where
  "EMarketMessage_BotIsBanned =
    [CHR 0xD0, CHR 0x91, CHR 0xD0, CHR 0xBE, CHR 0xD1, CHR 0x82, CHR 0x20, CHR 0xD0,
     CHR 0xB7, CHR 0xD0, CHR 0xB0, CHR 0xD0, CHR 0xB1, CHR 0xD0, CHR 0xB0, CHR 0xD0,
     CHR 0xBD, CHR 0xD0, CHR 0xB5, CHR 0xD0, CHR 0xBD, CHR 0x2C, CHR 0x20, CHR 0xD1,
     CHR 0x81, CHR 0xD0, CHR 0xBA, CHR 0xD0, CHR 0xBE, CHR 0xD1, CHR 0x80, CHR 0xD0,
     CHR 0xBE, CHR 0x20, CHR 0xD0, CHR 0xB8, CHR 0xD1, CHR 0x81, CHR 0xD0, CHR 0xBF,
     CHR 0xD1, CHR 0x80, CHR 0xD0, CHR 0xB0, CHR 0xD0, CHR 0xB2, CHR 0xD0, CHR 0xB8,
     CHR 0xD0, CHR 0xBC, CHR 0x2E]"

definition EMarketMessage_VacGameBan :: string where
  "EMarketMessage_VacGameBan = ''Error: reason VACBan or Game ban.''"

definition EMarketMessage_InvalidTradeLink :: string where
  "EMarketMessage_InvalidTradeLink = ''Invalid trade link''"

definition EMarketMessage_SteamInventoryPrivate :: string where
  "EMarketMessage_SteamInventoryPrivate = ''First you must open your inventory in your Steam profile settings.''"

definition EMarketMessage_OfflineTradeProblem :: string where
  "EMarketMessage_OfflineTradeProblem = ''Error verifying link. Our bot cannot take or transfer your items. Please check the function of offline trades on your account.''"

definition EMarketMessage_BadTokenInvClosed :: string where
  "EMarketMessage_BadTokenInvClosed = ''bad_token_inv_closed''"

definition EMarketMessage_CanceledTrades :: string where
  "EMarketMessage_CanceledTrades =
    [CHR 0xD0, CHR 0x9F, CHR 0xD0, CHR 0xB5, CHR 0xD1, CHR 0x80, CHR 0xD0, CHR 0xB5,
     CHR 0xD0, CHR 0xB4, CHR 0xD0, CHR 0xB0, CHR 0xD1, CHR 0x87, CHR 0xD0, CHR 0xB0,
     CHR 0x20, CHR 0xD0, CHR 0xBF, CHR 0xD1, CHR 0x80, CHR 0xD0, CHR 0xB5, CHR 0xD0,
     CHR 0xB4, CHR 0xD0, CHR 0xBC, CHR 0xD0, CHR 0xB5, CHR 0xD1, CHR 0x82, CHR 0xD0,
     CHR 0xB0, CHR 0x20, CHR 0xD0, CHR 0xBD, CHR 0xD0, CHR 0xB0, CHR 0x20, CHR 0xD1,
     CHR 0x8D, CHR 0xD1, CHR 0x82, CHR 0xD0, CHR 0xBE, CHR 0xD0, CHR 0xB3, CHR 0xD0,
     CHR 0xBE, CHR 0x20, CHR 0xD0, CHR 0xBF, CHR 0xD0, CHR 0xBE, CHR 0xD0, CHR 0xBB,
     CHR 0xD1, CHR 0x8C, CHR 0xD0, CHR 0xB7, CHR 0xD0, CHR 0xBE, CHR 0xD0, CHR 0xB2,
     CHR 0xD0, CHR 0xB0, CHR 0xD1, CHR 0x82, CHR 0xD0, CHR 0xB5, CHR 0xD0, CHR 0xBB,
     CHR 0xD1, CHR 0x8F, CHR 0x20, CHR 0xD0, CHR 0xBD, CHR 0xD0, CHR 0xB5, CHR 0x20,
     CHR 0xD0, CHR 0xB2, CHR 0xD0, CHR 0xBE, CHR 0xD0, CHR 0xB7, CHR 0xD0, CHR 0xBC,
     CHR 0xD0, CHR 0xBE, CHR 0xD0, CHR 0xB6, CHR 0xD0, CHR 0xBD, CHR 0xD0, CHR 0xB0,
     CHR 0x2C, CHR 0x20, CHR 0xD0, CHR 0xB8, CHR 0xD0, CHR 0xB7, CHR 0x2D, CHR 0xD0,
     CHR 0xB7, CHR 0xD0, CHR 0xB0, CHR 0x20, CHR 0xD0, CHR 0xBD, CHR 0xD0, CHR 0xB5,
     CHR 0x20, CHR 0xD0, CHR 0xBF, CHR 0xD1, CHR 0x80, CHR 0xD0, CHR 0xB8, CHR 0xD0,
     CHR 0xBD, CHR 0xD1, CHR 0x8F, CHR 0xD1, CHR 0x82, CHR 0xD0, CHR 0xB8, CHR 0xD1,
     CHR 0x8F, CHR 0x20, CHR 0xD0, CHR 0xB1, CHR 0xD0, CHR 0xBE, CHR 0xD0, CHR 0xBB,
     CHR 0xD1, CHR 0x8C, CHR 0xD1, CHR 0x88, CHR 0xD0, CHR 0xBE, CHR 0xD0, CHR 0xB3,
     CHR 0xD0, CHR 0xBE, CHR 0x20, CHR 0xD0, CHR 0xBA, CHR 0xD0, CHR 0xBE, CHR 0xD0,
     CHR 0xBB, CHR 0x2D, CHR 0xD0, CHR 0xB2, CHR 0xD0, CHR 0xB0, CHR 0x20, CHR 0xD0,
     CHR 0xBE, CHR 0xD0, CHR 0xB1, CHR 0xD0, CHR 0xBC, CHR 0xD0, CHR 0xB5, CHR 0xD0,
     CHR 0xBD, CHR 0xD0, CHR 0xBE, CHR 0xD0, CHR 0xB2, CHR 0x2E]"

definition EMarketMessage_BuyCanceledTrades :: string where
  "EMarketMessage_BuyCanceledTrades =
    [CHR 0xD0, CHR 0x92, CHR 0xD1, CHR 0x8B, CHR 0x20, CHR 0xD0, CHR 0xBD, CHR 0xD0,
     CHR 0xB5, CHR 0x20, CHR 0xD0, CHR 0xBC, CHR 0xD0, CHR 0xBE, CHR 0xD0, CHR 0xB6,
     CHR 0xD0, CHR 0xB5, CHR 0xD1, CHR 0x82, CHR 0xD0, CHR 0xB5, CHR 0x20, CHR 0xD0,
     CHR 0xBF, CHR 0xD0, CHR 0xBE, CHR 0xD0, CHR 0xBA, CHR 0xD1, CHR 0x83, CHR 0xD0,
     CHR 0xBF, CHR 0xD0, CHR 0xB0, CHR 0xD1, CHR 0x82, CHR 0xD1, CHR 0x8C, CHR 0x2C,
     CHR 0x20, CHR 0xD1, CHR 0x82, CHR 0xD0, CHR 0xB0, CHR 0xD0, CHR 0xBA, CHR 0x20,
     CHR 0xD0, CHR 0xBA, CHR 0xD0, CHR 0xB0, CHR 0xD0, CHR 0xBA, CHR 0x20, CHR 0xD0,
     CHR 0xBD, CHR 0xD0, CHR 0xB5, CHR 0x20, CHR 0xD0, CHR 0xBF, CHR 0xD1, CHR 0x80,
     CHR 0xD0, CHR 0xB8, CHR 0xD0, CHR 0xBD, CHR 0xD1, CHR 0x8F, CHR 0xD0, CHR 0xBB,
     CHR 0xD0, CHR 0xB8, CHR 0x20, CHR 0xD1, CHR 0x81, CHR 0xD0, CHR 0xBB, CHR 0xD0,
     CHR 0xB8, CHR 0xD1, CHR 0x88, CHR 0xD0, CHR 0xBA, CHR 0xD0, CHR 0xBE, CHR 0xD0,
     CHR 0xBC, CHR 0x20, CHR 0xD0, CHR 0xBC, CHR 0xD0, CHR 0xBD, CHR 0xD0, CHR 0xBE,
     CHR 0xD0, CHR 0xB3, CHR 0xD0, CHR 0xBE, CHR 0x20, CHR 0xD0, CHR 0xBF, CHR 0xD1,
     CHR 0x80, CHR 0xD0, CHR 0xB5, CHR 0xD0, CHR 0xB4, CHR 0xD0, CHR 0xBB, CHR 0xD0,
     CHR 0xBE, CHR 0xD0, CHR 0xB6, CHR 0xD0, CHR 0xB5, CHR 0xD0, CHR 0xBD, CHR 0xD0,
     CHR 0xB8, CHR 0xD0, CHR 0xB9, CHR 0x20, CHR 0xD0, CHR 0xBE, CHR 0xD0, CHR 0xB1,
     CHR 0xD0, CHR 0xBC, CHR 0xD0, CHR 0xB5, CHR 0xD0, CHR 0xBD, CHR 0xD0, CHR 0xB0]"

definition EMarketMessage_ItemReadyToTake :: string where
  "EMarketMessage_ItemReadyToTake =
    [CHR 0xD0, CHR 0x9A, CHR 0xD1, CHR 0x83, CHR 0xD0, CHR 0xBF, CHR 0xD0, CHR 0xBB,
     CHR 0xD0, CHR 0xB5, CHR 0xD0, CHR 0xBD, CHR 0xD0, CHR 0xBD, CHR 0xD1, CHR 0x8B,
     CHR 0xD0, CHR 0xB9, CHR 0x20, CHR 0xD0, CHR 0xBF, CHR 0xD1, CHR 0x80, CHR 0xD0,
     CHR 0xB5, CHR 0xD0, CHR 0xB4, CHR 0xD0, CHR 0xBC, CHR 0xD0, CHR 0xB5, CHR 0xD1,
     CHR 0x82, CHR 0x20, CHR 0xD0, CHR 0xB3, CHR 0xD0, CHR 0xBE, CHR 0xD1, CHR 0x82,
     CHR 0xD0, CHR 0xBE, CHR 0xD0, CHR 0xB2, CHR 0x20, CHR 0xD0, CHR 0xBA, CHR 0x20,
     CHR 0xD0, CHR 0xBF, CHR 0xD0, CHR 0xBE, CHR 0xD0, CHR 0xBB, CHR 0xD1, CHR 0x83,
     CHR 0xD1, CHR 0x87, CHR 0xD0, CHR 0xB5, CHR 0xD0, CHR 0xBD, CHR 0xD0, CHR 0xB8,
     CHR 0xD1, CHR 0x8E, CHR 0x2C, CHR 0x20, CHR 0xD0, CHR 0xB7, CHR 0xD0, CHR 0xB0,
     CHR 0xD0, CHR 0xB1, CHR 0xD0, CHR 0xB5, CHR 0xD1, CHR 0x80, CHR 0xD0, CHR 0xB8,
     CHR 0xD1, CHR 0x82, CHR 0xD0, CHR 0xB5, CHR 0x20, CHR 0xD0, CHR 0xB5, CHR 0xD0,
     CHR 0xB3, CHR 0xD0, CHR 0xBE, CHR 0x20, CHR 0xD0, CHR 0xBD, CHR 0xD0, CHR 0xB0,
     CHR 0x20, CHR 0xD1, CHR 0x81, CHR 0xD1, CHR 0x82, CHR 0xD1, CHR 0x80, CHR 0xD0,
     CHR 0xB0, CHR 0xD0, CHR 0xBD, CHR 0xD0, CHR 0xB8, CHR 0xD1, CHR 0x86, CHR 0xD0,
     CHR 0xB5, CHR 0x20, CHR 0x22, CHR 0xD0, CHR 0x9C, CHR 0xD0, CHR 0xBE, CHR 0xD0,
     CHR 0xB8, CHR 0x20, CHR 0xD0, CHR 0xB2, CHR 0xD0, CHR 0xB5, CHR 0xD1, CHR 0x89,
     CHR 0xD0, CHR 0xB8, CHR 0x22]"

definition EMarketMessage_SupportAnswer :: string where
  "EMarketMessage_SupportAnswer =
    [CHR 0xD0, CHR 0x9F, CHR 0xD0, CHR 0xBE, CHR 0xD0, CHR 0xBB, CHR 0xD1, CHR 0x83,
     CHR 0xD1, CHR 0x87, CHR 0xD0, CHR 0xB5, CHR 0xD0, CHR 0xBD, CHR 0x20, CHR 0xD0,
     CHR 0xBD, CHR 0xD0, CHR 0xBE, CHR 0xD0, CHR 0xB2, CHR 0xD1, CHR 0x8B, CHR 0xD0,
     CHR 0xB9, CHR 0x20, CHR 0xD0, CHR 0xBE, CHR 0xD1, CHR 0x82, CHR 0xD0, CHR 0xB2,
     CHR 0xD0, CHR 0xB5, CHR 0xD1, CHR 0x82, CHR 0x20, CHR 0xD0, CHR 0xBE, CHR 0xD1,
     CHR 0x82, CHR 0x20, CHR 0xD1, CHR 0x82, CHR 0xD0, CHR 0xB5, CHR 0xD1, CHR 0x85,
     CHR 0xD0, CHR 0xBF, CHR 0xD0, CHR 0xBE, CHR 0xD0, CHR 0xB4, CHR 0xD0, CHR 0xB4,
     CHR 0xD0, CHR 0xB5, CHR 0xD1, CHR 0x80, CHR 0xD0, CHR 0xB6, CHR 0xD0, CHR 0xBA,
     CHR 0xD0, CHR 0xB8]"

definition EMarketMessage :: "(string \<times> string) list" where
  "EMarketMessage =
    [(''Ok'', EMarketMessage_Ok),
     (''TooEarlyToPong'', EMarketMessage_TooEarlyToPong),
     (''CheckTokenOrMobile'', EMarketMessage_CheckTokenOrMobile),
     (''RequestErrorNoItems'', EMarketMessage_RequestErrorNoItems),
     (''RequestErrorWrongBotId'', EMarketMessage_RequestErrorWrongBotId),
     (''RequestErrorItemListFail'', EMarketMessage_RequestErrorItemListFail),
     (''RequestUnexpectedError'', EMarketMessage_RequestUnexpectedError),
     (''NeedMoney'', EMarketMessage_NeedMoney),
     (''NeedToTake'', EMarketMessage_NeedToTake),
     (''BadOfferPrice'', EMarketMessage_BadOfferPrice),
     (''RequestErrorNoList'', EMarketMessage_RequestErrorNoList),
     (''BuyOfferExpired'', EMarketMessage_BuyOfferExpired),
     (''SomebodyBuying'', EMarketMessage_SomebodyBuying),
     (''ServerError7'', EMarketMessage_ServerError7),
     (''SteamOrBotProblems'', EMarketMessage_SteamOrBotProblems),
     (''BotIsBanned'', EMarketMessage_BotIsBanned),
     (''VacGameBan'', EMarketMessage_VacGameBan),
     (''InvalidTradeLink'', EMarketMessage_InvalidTradeLink),
     (''SteamInventoryPrivate'', EMarketMessage_SteamInventoryPrivate),
     (''OfflineTradeProblem'', EMarketMessage_OfflineTradeProblem),
     (''BadTokenInvClosed'', EMarketMessage_BadTokenInvClosed),
     (''CanceledTrades'', EMarketMessage_CanceledTrades),
     (''BuyCanceledTrades'', EMarketMessage_BuyCanceledTrades),
     (''ItemReadyToTake'', EMarketMessage_ItemReadyToTake),
     (''SupportAnswer'', EMarketMessage_SupportAnswer)]"

text \<open>
  \<open>EMarketMessage.hash\<close>: the first name whose message is the given one, or \<open>null\<close>.
  (The member \<open>hash\<close> itself is a function and equals no message.)
\<close>

definition hash :: "string option \<Rightarrow> string option" where
  "hash message =
     (case message of
        None \<Rightarrow> None
      | Some m \<Rightarrow> map_option fst (find (\<lambda>entry. snd entry = m) EMarketMessage))"

text \<open>\<open>EMarketMessage[name]\<close>; the table has no property \<open>null\<close>.\<close>

definition EMarketMessage_at :: "string option \<Rightarrow> string option" where
  "EMarketMessage_at name = (case name of None \<Rightarrow> None | Some n \<Rightarrow> map_of EMarketMessage n)"

section \<open>Buying\<close>

definition Number_MAX_VALUE :: int where
  "Number_MAX_VALUE = (2 ^ 53 - 1) * 2 ^ 971"

definition getAccountBalance :: "('w, 'r) MarketLayer \<Rightarrow> int" where
  "getAccountBalance L = (case wallet L of None \<Rightarrow> Number_MAX_VALUE | Some w \<Rightarrow> w)"

text \<open>\<open>_getBuyDiscount\<close> returns 0 at once; the code after that line is never run.\<close>

definition getBuyDiscount :: rat where
  "getBuyDiscount = 0"

definition Math_round :: "rat \<Rightarrow> int" where
  "Math_round x = \<lfloor>x + 1 / 2\<rfloor>"

text \<open>\<open>_applyDiscount\<close>; a \<open>null\<close> discount counts as 0 in \<open>1 - this._buyDiscount\<close>.\<close>

definition applyDiscount :: "('w, 'r) MarketLayer \<Rightarrow> int \<Rightarrow> int" where
  "applyDiscount L p =
     (if \<not> applyDiscounts (config L) then p
      else Math_round (of_int p * (1 - (case buyDiscount L of None \<Rightarrow> 0 | Some d \<Rightarrow> d))))"

text \<open>The remote purchase call, logged.\<close>

definition call_buyV2CreateFor ::
  "('w, 'r) MarketLayer \<Rightarrow> offer \<Rightarrow> int \<Rightarrow> trade_data option \<Rightarrow> 'w remote \<Rightarrow> buy_reply \<times> 'w remote" where
  "call_buyV2CreateFor L inst uprice tradeData rm =
     (case buyV2CreateFor (api L) (world rm) inst uprice tradeData of
        (reply, w') \<Rightarrow>
          (reply,
           rm\<lparr>world := w',
              buy_calls := buy_calls rm @
                [\<lparr>call_instance = inst, call_price = uprice, call_tradeData = tradeData,
                  call_reply = reply\<rparr>]\<rparr>))"

text \<open>
  The \<open>then\<close> handler of \<open>_tryToBuy\<close>: a response that does not report success throws
  a plain \<open>Error\<close>, an object with no \<open>response\<close>, which the \<open>catch\<close> handler
  of the same chain receives.
\<close>

definition tryToBuy_then ::
  "('w, 'r) MarketLayer \<Rightarrow> offer \<Rightarrow> int \<Rightarrow> buy_response \<Rightarrow> rejection + purchase" where
  "tryToBuy_then L inst uprice resp =
     (if \<not> success resp then Inl NoResponse
      else Inr \<lparr>uiId = response_id resp,
                bought_classId = classId inst,
                bought_instanceId = instanceId inst,
                bought_price = applyDiscount L
                  (case min_price inst of
                     None \<Rightarrow> uprice
                   | Some m \<Rightarrow> if m \<noteq> 0 then m else uprice),
                offerPrice = min_price inst\<rparr>)"

text \<open>
  The \<open>catch\<close> handler of \<open>_tryToBuy\<close>: \<open>Inr None\<close> is the \<open>null\<close> that asks for the
  next offer. The \<open>switch\<close> compares in the order of its cases. The table has no
  entry \<open>FailedToFindItem\<close>, so that case label is \<open>undefined\<close> and matches a message
  that is \<open>undefined\<close>.
\<close>

definition tryToBuy_catch :: "offer \<Rightarrow> int \<Rightarrow> rejection \<Rightarrow> js_error + purchase option" where
  "tryToBuy_catch inst uprice err =
     (case err of
        NoResponse \<Rightarrow> Inl TypeError
      | NoBody \<Rightarrow> Inl TypeError
      | NoErrorField \<Rightarrow> Inl TypeError
      | ErrorBody resp \<Rightarrow>
          (let message = EMarketMessage_at (hash (error resp)) in
           if message = Some EMarketMessage_BadOfferPrice
           then Inl (MiddlewareError BadOfferPrice (Some Market) [])
           else if message = Some EMarketMessage_BuyOfferExpired
                 \<or> message = Some EMarketMessage_SomebodyBuying
                 \<or> message = Some EMarketMessage_RequestErrorNoList
                 \<or> message = None
                 \<or> message = Some EMarketMessage_SteamOrBotProblems
                 \<or> message = Some EMarketMessage_BotIsBanned
                 \<or> message = Some EMarketMessage_ServerError7
           then Inr None
           else if message = Some EMarketMessage_NeedToTake
           then Inl (MiddlewareError NeedToTake (Some Owner) [])
           else if message = Some EMarketMessage_NeedMoney
           then Inl (MiddlewareError NeedMoney (Some Owner) [(''needMoney'', Num uprice)])
           else if message = Some EMarketMessage_InvalidTradeLink
           then Inl (MiddlewareError InvalidToken (Some User) [])
           else if message = Some EMarketMessage_SteamInventoryPrivate
           then Inl (MiddlewareError InventoryClosed (Some User) [])
           else if message = Some EMarketMessage_OfflineTradeProblem
           then Inl (MiddlewareError UnableOfflineTrade (Some User) [])
           else if message = Some EMarketMessage_VacGameBan
           then Inl (MiddlewareError VacGameBan (Some User) [])
           else if message = Some EMarketMessage_BuyCanceledTrades
           then Inl (MiddlewareError BotCanceledTrades (Some User) [])
           else if message = Some EMarketMessage_CanceledTrades
           then Inl (MiddlewareError CanceledTrades (Some User) [])
           else Inr None))"

text \<open>The promise chain of \<open>_tryToBuy\<close> on the reply of the purchase call: \<open>then\<close>, then \<open>catch\<close>.\<close>

definition tryToBuy_settle ::
  "('w, 'r) MarketLayer \<Rightarrow> offer \<Rightarrow> int \<Rightarrow> buy_reply \<Rightarrow> js_error + purchase option" where
  "tryToBuy_settle L inst uprice reply =
     (case (case reply of
              Resolved resp \<Rightarrow> tryToBuy_then L inst uprice resp
            | Rejected err \<Rightarrow> Inl err) of
        Inr bought \<Rightarrow> Inr (Some bought)
      | Inl err \<Rightarrow> tryToBuy_catch inst uprice err)"

definition tryToBuy ::
  "('w, 'r) MarketLayer \<Rightarrow> offer \<Rightarrow> trade_data option \<Rightarrow> 'w remote
     \<Rightarrow> (js_error + purchase option) \<times> 'w remote" where
  "tryToBuy L inst tradeData rm =
     (let uprice = price inst in
      case call_buyV2CreateFor L inst uprice tradeData rm of
        (reply, rm') \<Rightarrow> (tryToBuy_settle L inst uprice reply, rm'))"

text \<open>
  How a logged purchase call was classified, and the calls of a log that were classified
  as \<open>BadOfferPrice\<close>.
\<close>

definition classified :: "('w, 'r) MarketLayer \<Rightarrow> buy_call \<Rightarrow> js_error + purchase option" where
  "classified L c = tryToBuy_settle L (call_instance c) (call_price c) (call_reply c)"

definition isBadOfferPrice :: "js_error + 'a \<Rightarrow> bool" where
  "isBadOfferPrice r =
     (case r of Inl e \<Rightarrow> isMiddlewareError e \<and> type e = Some BadOfferPrice | Inr _ \<Rightarrow> False)"

definition badOfferPrice_calls :: "('w, 'r) MarketLayer \<Rightarrow> buy_call list \<Rightarrow> buy_call list" where
  "badOfferPrice_calls L cs = filter (\<lambda>c. isBadOfferPrice (classified L c)) cs"

text \<open>The purchase calls issued between two states of the marketplace.\<close>

definition calls_since :: "'w remote \<Rightarrow> 'w remote \<Rightarrow> buy_call list" where
  "calls_since rm rm' = drop (length (buy_calls rm)) (buy_calls rm')"

section \<open>Looking offers up\<close>

definition call_searchV2ItemByHash ::
  "('w, 'r) MarketLayer \<Rightarrow> string \<Rightarrow> 'w remote
     \<Rightarrow> ('r raw_item list option) data_response \<times> 'w remote" where
  "call_searchV2ItemByHash L mhn rm =
     (case searchV2ItemByHash (api L) (world rm) mhn of
        (itemVariants, w') \<Rightarrow>
          (itemVariants, rm\<lparr>world := w', search_calls := search_calls rm @ [mhn]\<rparr>))"

text \<open>
  \<open>extractOffers\<close>. In \<open>item.offers || item.count\<close> a count of 0 is as good as none,
  and \<open>Number(undefined)\<close> is \<open>NaN\<close>.
\<close>

definition extractOffers :: "('w, 'r) MarketLayer \<Rightarrow> 'r raw_item list \<Rightarrow> offer list" where
  "extractOffers L items =
     map (\<lambda>item.
            let ids = getItemIds (api L) item in
            \<lparr>hashName = getItemHash (api L) item,
             instanceId = ids_instanceId ids,
             classId = ids_classId ids,
             price = item_price item,
             offers = (case item_offers item of
                         None \<Rightarrow> item_count item
                       | Some n \<Rightarrow> if n \<noteq> 0 then Some n else item_count item),
             min_price = None\<rparr>)
         items"

text \<open>
  \<open>prepareOffers\<close>: the two filters, then the sort by price. \<open>Array.prototype.sort\<close> is
  stable, as \<open>sort_key\<close> is. A comparison with \<open>NaN\<close> is false.
\<close>

definition prepareOffers :: "int \<Rightarrow> string \<Rightarrow> offer list \<Rightarrow> offer list" where
  "prepareOffers allowedPrice mhn items =
     sort_key price
       (filter (\<lambda>item. hashName item = mhn)
          (filter (\<lambda>item. price item \<le> allowedPrice
                           \<and> (case offers item of None \<Rightarrow> False | Some n \<Rightarrow> n > 0))
             items))"

fun Math_min :: "int list \<Rightarrow> number" where
  "Math_min [] = Infinity"
| "Math_min (x # xs) = Num (fold min xs x)"

text \<open>
  The first line of \<open>getItemOffers\<close>: in \<open>maxPrice ? ... : Number.MAX_VALUE\<close> a ceiling of
  0 is as good as none.
\<close>

definition allowedPrice :: "('w, 'r) MarketLayer \<Rightarrow> int option \<Rightarrow> int" where
  "allowedPrice L maxPrice =
     (case maxPrice of
        None \<Rightarrow> Number_MAX_VALUE
      | Some m \<Rightarrow> if m \<noteq> 0 then preparePrice (config L) m else Number_MAX_VALUE)"

definition getItemOffers ::
  "('w, 'r) MarketLayer \<Rightarrow> string \<Rightarrow> int option \<Rightarrow> 'w remote
     \<Rightarrow> (js_error + offer list) \<times> 'w remote" where
  "getItemOffers L mhn maxPrice rm =
     (case call_searchV2ItemByHash L mhn rm of
        (itemVariants, rm') \<Rightarrow>
          if \<not> success itemVariants
          then (Inl (MiddlewareError RequestFailed (Some Market) []), rm')
          else (case data itemVariants of
                  None \<Rightarrow> (Inl (MiddlewareError NotFound (Some Market) []), rm')
                | Some items \<Rightarrow>
                    if length items = 0
                    then (Inl (MiddlewareError NotFound (Some Market) []), rm')
                    else (let rawVariants = extractOffers L items;
                              preparedVariants =
                                prepareOffers (allowedPrice L maxPrice) mhn rawVariants
                          in if length preparedVariants = 0
                             then (Inl (MiddlewareError TooHighPrices (Some Owner)
                                          [(''lowestPrice'', Math_min (map price rawVariants))]),
                                   rm')
                             else (Inr preparedVariants, rm'))))"

section \<open>The state of a bought item\<close>

definition call_accountV2GetHistory ::
  "('w, 'r) MarketLayer \<Rightarrow> int \<Rightarrow> int \<Rightarrow> 'w remote
     \<Rightarrow> (history_event list) data_response \<times> 'w remote" where
  "call_accountV2GetHistory L start end' rm =
     (case accountV2GetHistory (api L) (world rm) start end' of
        (history, w') \<Rightarrow>
          (history, rm\<lparr>world := w', history_calls := history_calls rm @ [(start, end')]\<rparr>))"

text \<open>
  The date \<open>getBoughtItems\<close> searches around: with \<open>handleTimezone\<close> the date is moved by
  its time zone offset, and an absent date has no method \<open>getTimezoneOffset\<close>. Dates are
  milliseconds.
\<close>

definition alignDate ::
  "('w, 'r) MarketLayer \<Rightarrow> 'w runtime \<Rightarrow> int option \<Rightarrow> js_error + int option" where
  "alignDate L G operationDate =
     (if handleTimezone (config L)
      then (case operationDate of
              None \<Rightarrow> Inl TypeError
            | Some t \<Rightarrow>
                (let REQUIRED_TIMEZONE = 0;
                     currentTimezone = getTimezoneOffset G t;
                     offset = - (REQUIRED_TIMEZONE - currentTimezone)
                 in Inr (Some (t + offset * 60 * 1000))))
      else Inr operationDate)"

definition getBoughtItems ::
  "('w, 'r) MarketLayer \<Rightarrow> 'w runtime \<Rightarrow> int option \<Rightarrow> int option \<Rightarrow> 'w remote
     \<Rightarrow> (js_error + history_event list) \<times> 'w remote" where
  "getBoughtItems L G operationDate timeMargin rm =
     (let margin = (case timeMargin of None \<Rightarrow> 60 * 1000 | Some m \<Rightarrow> m) in
      case alignDate L G operationDate of
        Inl e \<Rightarrow> (Inl e, rm)
      | Inr aligned \<Rightarrow>
          (case (case aligned of
                   Some t \<Rightarrow> (t - margin, t + margin)
                 | None \<Rightarrow> (0, Date_now G (world rm))) of
             (start, end') \<Rightarrow>
               (case call_accountV2GetHistory L start end' rm of
                  (history, rm') \<Rightarrow>
                    if success history
                    then (let buyEvents =
                                filter (\<lambda>ev. event ev = EMarketEventType_BuyV2 G) (data history)
                          in if length buyEvents = 0
                             then (Inl (MiddlewareError NotFound None []), rm')
                             else (Inr buyEvents, rm'))
                    else (Inl (MiddlewareError HistoryFailed None []), rm'))))"

text \<open>The closures \<open>getItem\<close> and \<open>makeRequests\<close> of \<open>getItemState\<close>.\<close>

definition getItem ::
  "('w, 'r) MarketLayer \<Rightarrow> 'w runtime \<Rightarrow> int \<Rightarrow> int option \<Rightarrow> int \<Rightarrow> 'w remote
     \<Rightarrow> (js_error + history_event) \<times> 'w remote" where
  "getItem L G marketId operationDate margin rm =
     (case getBoughtItems L G operationDate (Some margin) rm of
        (Inl e, rm') \<Rightarrow> (Inl e, rm')
      | (Inr history, rm') \<Rightarrow>
          (case find (\<lambda>ev. item_id ev = marketId) history of
             None \<Rightarrow> (Inl (MiddlewareError NotFound None []), rm')
           | Some buyEvent \<Rightarrow> (Inr buyEvent, rm')))"

definition initialMargin :: int where
  "initialMargin = 45 * 1000"

definition extendedMargin :: int where
  "extendedMargin = 5 * 60 * 1000"

definition makeRequests ::
  "('w, 'r) MarketLayer \<Rightarrow> 'w runtime \<Rightarrow> int \<Rightarrow> int option \<Rightarrow> 'w remote
     \<Rightarrow> (js_error + history_event) \<times> 'w remote" where
  "makeRequests L G marketId operationDate rm =
     (case getItem L G marketId operationDate initialMargin rm of
        (Inr buyEvent, rm') \<Rightarrow> (Inr buyEvent, rm')
      | (Inl e, rm') \<Rightarrow>
          if type e = Some NotFound
          then getItem L G marketId operationDate extendedMargin rm'
          else (Inl e, rm'))"

definition getItemState ::
  "('w, 'r) MarketLayer \<Rightarrow> 'w runtime \<Rightarrow> int \<Rightarrow> int option \<Rightarrow> 'w remote
     \<Rightarrow> (js_error + int) \<times> 'w remote" where
  "getItemState L G marketId operationDate rm =
     (case makeRequests L G marketId operationDate rm of
        (Inl e, rm') \<Rightarrow> (Inl (e\<lparr>err_marketId := Some marketId\<rparr>), rm')
      | (Inr buyEvent, rm') \<Rightarrow>
          (let stage' = stage buyEvent in
           if \<not> EMarketEventStage_has G stage'
           then (Inl (MiddlewareError UnknownStage None []), rm')
           else (Inr stage', rm')))"

text \<open>The buy event of an item in a history, as \<open>getBoughtItems\<close> and \<open>getItem\<close> look for it.\<close>

definition itemBuyEvent :: "'w runtime \<Rightarrow> int \<Rightarrow> history_event list \<Rightarrow> history_event option" where
  "itemBuyEvent G marketId events =
     find (\<lambda>ev. item_id ev = marketId)
       (filter (\<lambda>ev. event ev = EMarketEventType_BuyV2 G) events)"

section \<open>The purchase loop\<close>

text \<open>
  What \<open>buyCheapest\<close> changes while it runs: the marketplace, the array \<open>offers\<close>
  (\<open>shift\<close> takes its head away) and the flag \<open>badItemPrice\<close>.
\<close>

type_synonym 'w run_state = "'w remote \<times> offer list \<times> bool"

text \<open>The offer taken from the array, with the price to try (the block under \<open>hackExpiredOffers\<close>).\<close>

definition attemptInstance :: "('w, 'r) MarketLayer \<Rightarrow> offer \<Rightarrow> offer list \<Rightarrow> offer" where
  "attemptInstance L first queue =
     (if hackExpiredOffers (config L) \<and> length queue > 0
      then (case queue of
              nextInstance # _ \<Rightarrow>
                first\<lparr>min_price := Some (price first),
                      price := max (price first) (price nextInstance - 1)\<rparr>
            | [] \<Rightarrow> first)
      else first)"

definition attachInstance :: "offer \<Rightarrow> js_error \<Rightarrow> js_error" where
  "attachInstance inst err =
     (if statusCode err \<noteq> None then err\<lparr>err_instance := Some inst\<rparr> else err)"

text \<open>
  \<open>buyAttempt\<close>, the closure of \<open>buyCheapest\<close>. The \<open>catch\<close> handler follows the
  \<open>then\<close> handler in the chain, so it also receives what a nested \<open>buyAttempt\<close>
  throws, and it reads the array and the flag as they are at that moment. The test
  \<open>balance !== false\<close> holds for every number. An exception thrown before the first
  purchase call and a rejected promise are both the error of the run, \<open>Inl\<close>. The
  recursion is nested; that it terminates is proved first among the properties below.
\<close>

function buyAttempt ::
  "('w, 'r) MarketLayer \<Rightarrow> trade_data option \<Rightarrow> 'w run_state
     \<Rightarrow> (js_error + purchase) \<times> 'w run_state" where
  "buyAttempt L tradeData (rm, [], badItemPrice) =
     (Inl (MiddlewareError AttemptsFailed (Some Market) []), (rm, [], badItemPrice))"
| "buyAttempt L tradeData (rm, first # queue, badItemPrice) =
     (let inst = attemptInstance L first queue in
      if price inst > getAccountBalance L
      then (Inl (MiddlewareError NeedMoney (Some Owner) [(''needMoney'', Num (price inst))]),
            (rm, queue, badItemPrice))
      else (case tryToBuy L inst tradeData rm of
              (res, rm1) \<Rightarrow>
                (case (case res of
                         Inr None \<Rightarrow> buyAttempt L tradeData (rm1, queue, badItemPrice)
                       | Inr (Some bought) \<Rightarrow> (Inr bought, (rm1, queue, badItemPrice))
                       | Inl err \<Rightarrow> (Inl err, (rm1, queue, badItemPrice))) of
                   (Inr bought, st) \<Rightarrow> (Inr bought, st)
                 | (Inl err, (rm2, queue2, bad2)) \<Rightarrow>
                     if isMiddlewareError err \<and> type err = Some BadOfferPrice \<and> \<not> bad2
                     then buyAttempt L tradeData (rm2, queue2, True)
                     else (Inl (attachInstance inst err), (rm2, queue2, bad2)))))"
  by pat_completeness auto

definition buyCheapest ::
  "('w, 'r) MarketLayer \<Rightarrow> offer list \<Rightarrow> trade_data option \<Rightarrow> 'w remote
     \<Rightarrow> (js_error + purchase) \<times> 'w run_state" where
  "buyCheapest L queue tradeData rm = buyAttempt L tradeData (rm, queue, False)"

section \<open>Example inputs\<close>

text \<open>
  A marketplace that answers the purchase calls from a script, one reply per call, and
  a layer over it.
\<close>

definition scripted_api :: "(buy_reply list, unit) MarketApi" where
  "scripted_api =
     \<lparr>buyV2CreateFor =
        (\<lambda>w inst uprice tradeData.
           case w of [] \<Rightarrow> (Rejected NoResponse, []) | reply # rest \<Rightarrow> (reply, rest)),
      searchV2ItemByHash = (\<lambda>w mhn. (\<lparr>success = False, data = None\<rparr>, w)),
      accountV2GetHistory = (\<lambda>w start end'. (\<lparr>success = False, data = []\<rparr>, w)),
      getItemIds = (\<lambda>item. \<lparr>ids_instanceId = ''0'', ids_classId = ''0''\<rparr>),
      getItemHash = (\<lambda>item. '''')\<rparr>"

definition scripted_layer :: "bool \<Rightarrow> int option \<Rightarrow> (buy_reply list, unit) MarketLayer" where
  "scripted_layer hack balance =
     \<lparr>config = \<lparr>hackExpiredOffers = hack, applyDiscounts = False, handleTimezone = False,
                preparePrice = (\<lambda>p. p)\<rparr>,
      api = scripted_api,
      wallet = balance,
      buyDiscount = None\<rparr>"

definition fresh :: "'w \<Rightarrow> 'w remote" where
  "fresh w = \<lparr>world = w, buy_calls = [], search_calls = [], history_calls = []\<rparr>"

definition listing :: "int \<Rightarrow> offer" where
  "listing p =
     \<lparr>hashName = ''AK-47 | Redline'', instanceId = ''188530139'', classId = ''310776'',
      price = p, offers = Some 1, min_price = None\<rparr>"

definition rejected_with :: "string \<Rightarrow> buy_reply" where
  "rejected_with m = Rejected (ErrorBody \<lparr>error = Some m, result = None\<rparr>)"

text \<open>A marketplace where every offer has expired by the time it is bought; it counts the calls.\<close>

definition expired_api :: "(nat, unit) MarketApi" where
  "expired_api =
     \<lparr>buyV2CreateFor =
        (\<lambda>w inst uprice tradeData. (rejected_with EMarketMessage_BuyOfferExpired, Suc w)),
      searchV2ItemByHash = (\<lambda>w mhn. (\<lparr>success = False, data = None\<rparr>, w)),
      accountV2GetHistory = (\<lambda>w start end'. (\<lparr>success = False, data = []\<rparr>, w)),
      getItemIds = (\<lambda>item. \<lparr>ids_instanceId = ''0'', ids_classId = ''0''\<rparr>),
      getItemHash = (\<lambda>item. '''')\<rparr>"

definition expired_layer :: "(nat, unit) MarketLayer" where
  "expired_layer =
     \<lparr>config = \<lparr>hackExpiredOffers = True, applyDiscounts = False, handleTimezone = False,
                preparePrice = (\<lambda>p. p)\<rparr>,
      api = expired_api,
      wallet = Some 1000,
      buyDiscount = None\<rparr>"

text \<open>The same marketplace under a layer with a balance of 120 and \<open>hackExpiredOffers\<close> off.\<close>

definition expired_layer_120 :: "(nat, unit) MarketLayer" where
  "expired_layer_120 =
     \<lparr>config = \<lparr>hackExpiredOffers = False, applyDiscounts = False, handleTimezone = False,
                preparePrice = (\<lambda>p. p)\<rparr>,
      api = expired_api,
      wallet = Some 120,
      buyDiscount = None\<rparr>"

text \<open>
  A marketplace whose state is the answer it gives to a search, over raw items that
  carry their hash name.
\<close>

definition shelf_api :: "((string raw_item list option) data_response, string) MarketApi" where
  "shelf_api =
     \<lparr>buyV2CreateFor = (\<lambda>w inst uprice tradeData. (Rejected NoResponse, w)),
      searchV2ItemByHash = (\<lambda>w mhn. (w, w)),
      accountV2GetHistory = (\<lambda>w start end'. (\<lparr>success = False, data = []\<rparr>, w)),
      getItemIds = (\<lambda>item. \<lparr>ids_instanceId = ''188530139'', ids_classId = ''310776''\<rparr>),
      getItemHash = item_rest\<rparr>"

definition shelf_layer :: "((string raw_item list option) data_response, string) MarketLayer" where
  "shelf_layer =
     \<lparr>config = \<lparr>hackExpiredOffers = True, applyDiscounts = False, handleTimezone = False,
                preparePrice = (\<lambda>p. p)\<rparr>,
      api = shelf_api,
      wallet = None,
      buyDiscount = None\<rparr>"

definition raw_listing :: "int \<Rightarrow> string raw_item" where
  "raw_listing p =
     \<lparr>item_price = p, item_offers = None, item_count = Some 1,
      item_rest = ''AK-47 | Redline''\<rparr>"

definition shelf :: "string raw_item list \<Rightarrow> (string raw_item list option) data_response" where
  "shelf items = \<lparr>success = True, data = Some items\<rparr>"

text \<open>
  A marketplace whose history holds one event, at a given time, and answers a query with
  the event when the time is in the window; a layer over it, with or without
  \<open>handleTimezone\<close>; and a runtime in a given time zone.
\<close>

definition ledger_api :: "int \<Rightarrow> history_event \<Rightarrow> (unit, unit) MarketApi" where
  "ledger_api time ev =
     \<lparr>buyV2CreateFor = (\<lambda>w inst uprice tradeData. (Rejected NoResponse, w)),
      searchV2ItemByHash = (\<lambda>w mhn. (\<lparr>success = False, data = None\<rparr>, w)),
      accountV2GetHistory =
        (\<lambda>w start end'.
           (\<lparr>success = True, data = (if start \<le> time \<and> time \<le> end' then [ev] else [])\<rparr>, w)),
      getItemIds = (\<lambda>item. \<lparr>ids_instanceId = ''0'', ids_classId = ''0''\<rparr>),
      getItemHash = (\<lambda>item. '''')\<rparr>"

definition ledger_layer :: "bool \<Rightarrow> int \<Rightarrow> history_event \<Rightarrow> (unit, unit) MarketLayer" where
  "ledger_layer tz time ev =
     \<lparr>config = \<lparr>hackExpiredOffers = True, applyDiscounts = False, handleTimezone = tz,
                preparePrice = (\<lambda>p. p)\<rparr>,
      api = ledger_api time ev,
      wallet = None,
      buyDiscount = None\<rparr>"

definition zone_runtime :: "int \<Rightarrow> unit runtime" where
  "zone_runtime minutes =
     \<lparr>getTimezoneOffset = (\<lambda>t. minutes),
      Date_now = (\<lambda>w. 0),
      EMarketEventType_BuyV2 = ''buy_go'',
      EMarketEventStage_has = (\<lambda>s. 1 \<le> s \<and> s \<le> 5)\<rparr>"

definition buy_event_7 :: history_event where
  "buy_event_7 = \<lparr>item_id = 7, stage = 2, event = ''buy_go''\<rparr>"

section \<open>Properties of the purchase loop\<close>

subsection \<open>Termination\<close>

text \<open>The array never grows: what the termination of the nested call rests on.\<close>

lemma buyAttempt_queue_le:
  "buyAttempt_dom (L, td, st) \<Longrightarrow>
   length (fst (snd (snd (buyAttempt L td st)))) \<le> length (fst (snd st))"
proof (induct rule: buyAttempt.pinduct)
  case (1 L tradeData rm badItemPrice)
  then show ?case by (simp add: buyAttempt.psimps)
next
  case (2 L tradeData rm first queue badItemPrice)
  define inst where "inst = attemptInstance L first queue"
  show ?case
  proof (cases "price inst > getAccountBalance L")
    case True
    then show ?thesis using "2.hyps"(1) by (simp add: buyAttempt.psimps inst_def)
  next
    case False
    obtain res rm1 where t: "tryToBuy L inst tradeData rm = (res, rm1)"
      by (cases "tryToBuy L inst tradeData rm")
    define inner where "inner =
      (case res of
         Inr None \<Rightarrow> buyAttempt L tradeData (rm1, queue, badItemPrice)
       | Inr (Some bought) \<Rightarrow> (Inr bought, (rm1, queue, badItemPrice))
       | Inl err \<Rightarrow> (Inl err, (rm1, queue, badItemPrice)))"
    obtain r2 rm2 queue2 bad2 where i: "inner = (r2, rm2, queue2, bad2)"
      by (cases inner) auto
    have le1: "length queue2 \<le> length queue"
    proof (cases res)
      case (Inl err)
      then show ?thesis using i by (simp add: inner_def)
    next
      case (Inr b)
      show ?thesis
      proof (cases b)
        case None
        have "length (fst (snd (snd (buyAttempt L tradeData (rm1, queue, badItemPrice)))))
                \<le> length (fst (snd (rm1, queue, badItemPrice)))"
          using "2.hyps"(2)[OF inst_def False t[symmetric] Inr None] .
        then show ?thesis using i Inr None by (simp add: inner_def)
      next
        case (Some bought)
        then show ?thesis using i Inr by (simp add: inner_def)
      qed
    qed
    show ?thesis
    proof (cases r2)
      case (Inr bought)
      then show ?thesis
        using "2.hyps"(1) False t i le1
        by (simp add: buyAttempt.psimps inst_def[symmetric] inner_def[symmetric] Let_def)
    next
      case (Inl err)
      show ?thesis
      proof (cases "isMiddlewareError err \<and> type err = Some BadOfferPrice \<and> \<not> bad2")
        case True
        have "length (fst (snd (snd (buyAttempt L tradeData (rm2, queue2, True)))))
                \<le> length (fst (snd (rm2, queue2, True)))"
        proof (rule "2.hyps"(3)[OF inst_def False t[symmetric]])
          show "(r2, (rm2, queue2, bad2)) =
            (case res of
               Inr None \<Rightarrow> buyAttempt L tradeData (rm1, queue, badItemPrice)
             | Inr (Some bought) \<Rightarrow> (Inr bought, (rm1, queue, badItemPrice))
             | Inl err \<Rightarrow> (Inl err, (rm1, queue, badItemPrice)))"
            using i by (simp add: inner_def)
          show "r2 = Inl err" by fact
          show "(rm2, (queue2, bad2)) = (rm2, queue2, bad2)" by simp
          show "(queue2, bad2) = (queue2, bad2)" by simp
          show "isMiddlewareError err \<and> type err = Some BadOfferPrice \<and> \<not> bad2" by fact
        qed
        then show ?thesis
          using "2.hyps"(1) False t i le1 Inl True
          by (simp add: buyAttempt.psimps inst_def[symmetric] inner_def[symmetric] Let_def)
      next
        case F2: False
        show ?thesis
          using "2.hyps"(1) False t i le1 Inl
          by (simp add: buyAttempt.psimps inst_def[symmetric] inner_def[symmetric] Let_def F2)
      qed
    qed
  qed
qed

termination buyAttempt
proof (relation "measure (\<lambda>(L, td, (rm, q, b)). length q)", goal_cases)
  case 1
  then show ?case by simp
next
  case (2 L tradeData rm first queue badItemPrice x xa y xb)
  then show ?case by simp
next
  case (3 L tradeData rm first queue badItemPrice inst res rm1 r2 st2 err rm2 st3 queue2 bad2)
  have "length queue2 \<le> length queue"
  proof (cases res)
    case (Inl e)
    then show ?thesis using 3 by auto
  next
    case (Inr b)
    show ?thesis
    proof (cases b)
      case None
      have "(r2, st2) = buyAttempt L tradeData (rm1, queue, badItemPrice)"
        using 3 Inr None by simp
      then have "buyAttempt L tradeData (rm1, queue, badItemPrice) = (r2, rm2, queue2, bad2)"
        using 3 by simp
      moreover have "buyAttempt_dom (L, tradeData, rm1, queue, badItemPrice)"
        using 3 Inr None by simp
      ultimately show ?thesis
        using buyAttempt_queue_le[of L tradeData "(rm1, queue, badItemPrice)"]
        by simp
    next
      case (Some bought)
      then show ?thesis using 3 Inr by auto
    qed
  qed
  then show ?case by simp
qed

declare buyAttempt.simps [simp del]

subsection \<open>One step of the loop\<close>

lemma tryToBuy_catch_statusCode:
  "tryToBuy_catch inst uprice err = Inl e \<Longrightarrow> statusCode e = None"
  by (auto simp: tryToBuy_catch_def MiddlewareError_def TypeError_def Let_def
      split: rejection.splits if_splits)

lemma tryToBuy_statusCode:
  "tryToBuy L inst td rm = (Inl e, rm1) \<Longrightarrow> statusCode e = None"
  by (auto simp: tryToBuy_def tryToBuy_settle_def Let_def
      split: prod.splits sum.splits buy_reply.splits dest: tryToBuy_catch_statusCode)

lemma attachInstance_plain: "statusCode e = None \<Longrightarrow> attachInstance inst e = e"
  by (simp add: attachInstance_def)

lemma buyAttempt_error_inv:
  "buyAttempt L td st = (Inl e, rm', q', bad') \<Longrightarrow>
   statusCode e = None \<and> (isMiddlewareError e \<and> type e = Some BadOfferPrice \<longrightarrow> bad')"
proof (induction L td st arbitrary: e rm' q' bad' rule: buyAttempt.induct)
  case (1 L tradeData rm badItemPrice)
  then show ?case by (auto simp: buyAttempt.simps MiddlewareError_def)
next
  case (2 L tradeData rm first queue badItemPrice)
  define inst where "inst = attemptInstance L first queue"
  show ?case
  proof (cases "price inst > getAccountBalance L")
    case True
    then show ?thesis using "2.prems"
      by (auto simp: buyAttempt.simps inst_def[symmetric] MiddlewareError_def)
  next
    case False
    obtain res rm1 where t: "tryToBuy L inst tradeData rm = (res, rm1)"
      by (cases "tryToBuy L inst tradeData rm")
    define inner where "inner =
      (case res of
         Inr None \<Rightarrow> buyAttempt L tradeData (rm1, queue, badItemPrice)
       | Inr (Some bought) \<Rightarrow> (Inr bought, (rm1, queue, badItemPrice))
       | Inl err \<Rightarrow> (Inl err, (rm1, queue, badItemPrice)))"
    obtain r2 rm2 queue2 bad2 where i: "inner = (r2, rm2, queue2, bad2)"
      by (cases inner) auto
    have unfold: "buyAttempt L tradeData (rm, first # queue, badItemPrice) =
      (case r2 of
         Inr bought \<Rightarrow> (Inr bought, (rm2, queue2, bad2))
       | Inl err \<Rightarrow>
           if isMiddlewareError err \<and> type err = Some BadOfferPrice \<and> \<not> bad2
           then buyAttempt L tradeData (rm2, queue2, True)
           else (Inl (attachInstance inst err), (rm2, queue2, bad2)))"
      using False t i
      by (simp add: buyAttempt.simps(2)[of _ _ _ first] inst_def[symmetric] inner_def[symmetric]
          Let_def split: sum.splits)
    show ?thesis
    proof (cases r2)
      case (Inr bought)
      then show ?thesis using "2.prems" unfold by simp
    next
      case (Inl err)
      have err_inv: "statusCode err = None \<and>
                     (isMiddlewareError err \<and> type err = Some BadOfferPrice \<longrightarrow> bad2 \<or> res = Inl err)"
      proof (cases res)
        case L: (Inl e0)
        then show ?thesis using i Inl t by (auto simp: inner_def dest: tryToBuy_statusCode)
      next
        case R: (Inr b)
        show ?thesis
        proof (cases b)
          case None
          have "buyAttempt L tradeData (rm1, queue, badItemPrice) = (Inl err, rm2, queue2, bad2)"
            using i Inl R None by (simp add: inner_def)
          from "2.IH"(1)[OF inst_def False t[symmetric] R None this]
          show ?thesis by simp
        next
          case (Some bought)
          then show ?thesis using i Inl R by (simp add: inner_def)
        qed
      qed
      show ?thesis
      proof (cases "isMiddlewareError err \<and> type err = Some BadOfferPrice \<and> \<not> bad2")
        case True
        have eq: "buyAttempt L tradeData (rm2, queue2, True) = (Inl e, rm', q', bad')"
          using "2.prems" unfold Inl True by simp
        show ?thesis
        proof (rule "2.IH"(2)[OF inst_def False t[symmetric] _ Inl _ _ True eq])
          show "(r2, (rm2, queue2, bad2)) =
            (case res of
               Inr None \<Rightarrow> buyAttempt L tradeData (rm1, queue, badItemPrice)
             | Inr (Some bought) \<Rightarrow> (Inr bought, (rm1, queue, badItemPrice))
             | Inl err \<Rightarrow> (Inl err, (rm1, queue, badItemPrice)))"
            using i by (simp add: inner_def)
          show "(rm2, (queue2, bad2)) = (rm2, queue2, bad2)" by simp
          show "(queue2, bad2) = (queue2, bad2)" by simp
        qed
      next
        case F2: False
        have "e = err \<and> bad' = bad2"
          using "2.prems" unfold Inl F2 err_inv by (simp add: attachInstance_plain)
        then show ?thesis using err_inv F2 by auto
      qed
    qed
  qed
qed


lemma buyAttempt_empty:
  "buyAttempt L td (rm, [], bad) =
     (Inl (MiddlewareError AttemptsFailed (Some Market) []), (rm, [], bad))"
  by (simp add: buyAttempt.simps)

lemma buyAttempt_needMoney:
  assumes "price (attemptInstance L first queue) > getAccountBalance L"
  shows "buyAttempt L td (rm, first # queue, bad) =
     (Inl (MiddlewareError NeedMoney (Some Owner)
             [(''needMoney'', Num (price (attemptInstance L first queue)))]),
      (rm, queue, bad))"
  using assms by (simp add: buyAttempt.simps Let_def)

lemma buyAttempt_bought:
  assumes "\<not> price (attemptInstance L first queue) > getAccountBalance L"
    and "tryToBuy L (attemptInstance L first queue) td rm = (Inr (Some bought), rm1)"
  shows "buyAttempt L td (rm, first # queue, bad) = (Inr bought, (rm1, queue, bad))"
  using assms by (simp add: buyAttempt.simps Let_def)

lemma buyAttempt_fatal:
  assumes "\<not> price (attemptInstance L first queue) > getAccountBalance L"
    and "tryToBuy L (attemptInstance L first queue) td rm = (Inl e, rm1)"
    and "\<not> (isMiddlewareError e \<and> type e = Some BadOfferPrice \<and> \<not> bad)"
  shows "buyAttempt L td (rm, first # queue, bad) = (Inl e, (rm1, queue, bad))"
  using assms(1,2) tryToBuy_statusCode[OF assms(2)]
  by (simp add: buyAttempt.simps(2)[of _ _ _ first] Let_def attachInstance_plain assms(3))

lemma buyAttempt_badOfferPrice_first:
  assumes "\<not> price (attemptInstance L first queue) > getAccountBalance L"
    and "tryToBuy L (attemptInstance L first queue) td rm = (Inl e, rm1)"
    and "isMiddlewareError e" and "type e = Some BadOfferPrice"
  shows "buyAttempt L td (rm, first # queue, False) = buyAttempt L td (rm1, queue, True)"
  using assms by (simp add: buyAttempt.simps(2)[of _ _ _ first] Let_def)

lemma buyAttempt_retry:
  assumes "\<not> price (attemptInstance L first queue) > getAccountBalance L"
    and "tryToBuy L (attemptInstance L first queue) td rm = (Inr None, rm1)"
  shows "buyAttempt L td (rm, first # queue, bad) = buyAttempt L td (rm1, queue, bad)"
proof -
  obtain r2 rm2 queue2 bad2 where n: "buyAttempt L td (rm1, queue, bad) = (r2, rm2, queue2, bad2)"
    by (cases "buyAttempt L td (rm1, queue, bad)") auto
  show ?thesis
  proof (cases r2)
    case (Inr bought)
    then show ?thesis using assms n by (simp add: buyAttempt.simps(2)[of _ _ _ first] Let_def)
  next
    case (Inl err)
    from buyAttempt_error_inv[OF n[unfolded Inl]]
    have "statusCode err = None" and "isMiddlewareError err \<and> type err = Some BadOfferPrice \<longrightarrow> bad2"
      by simp_all
    then show ?thesis using assms n Inl
      by (auto simp: buyAttempt.simps(2)[of _ _ _ first] Let_def attachInstance_plain)
  qed
qed

lemma attemptInstance_price_ge: "price first \<le> price (attemptInstance L first queue)"
  by (simp add: attemptInstance_def split: list.splits)

subsection \<open>Admission control\<close>

text \<open>
  Claim C3, as the code has it. With a known balance \<open>B\<close> and a first offer listed above
  \<open>B\<close>, \<open>buyCheapest\<close> fails with \<open>NeedMoney\<close> (source \<open>Owner\<close>), and \<open>needMoney\<close> is
  the price it was going to try: the listed price raised by the block under
  \<open>hackExpiredOffers\<close>, which is the listed price when that block is off or no further
  offer remains. The marketplace and its log are as before (no purchase call was issued),
  and the rest of the array is left untried.
\<close>

theorem buyCheapest_needMoney_attempt_price:
  assumes "wallet L = Some B" and "price first > B"
  shows "buyCheapest L (first # queue) tradeData rm =
           (Inl (MiddlewareError NeedMoney (Some Owner)
                   [(''needMoney'', Num (price (attemptInstance L first queue)))]),
            (rm, queue, False))
         \<and> (\<not> hackExpiredOffers (config L) \<or> queue = []
              \<longrightarrow> price (attemptInstance L first queue) = price first)"
proof -
  have "getAccountBalance L = B" using assms(1) by (simp add: getAccountBalance_def)
  then have "price (attemptInstance L first queue) > getAccountBalance L"
    using assms(2) attemptInstance_price_ge[of first L queue] by simp
  then have "buyCheapest L (first # queue) tradeData rm =
           (Inl (MiddlewareError NeedMoney (Some Owner)
                   [(''needMoney'', Num (price (attemptInstance L first queue)))]),
            (rm, queue, False))"
    unfolding buyCheapest_def by (rule buyAttempt_needMoney)
  moreover have "\<not> hackExpiredOffers (config L) \<or> queue = []
              \<longrightarrow> price (attemptInstance L first queue) = price first"
    by (auto simp: attemptInstance_def)
  ultimately show ?thesis by simp
qed

theorem buyCheapest_needMoney_attempt_price_witness:
  "wallet (scripted_layer True (Some 50)) = Some 50 \<and> price (listing 100) > 50
   \<and> buyCheapest (scripted_layer True (Some 50)) [listing 100, listing 150] None (fresh [])
       = (Inl (MiddlewareError NeedMoney (Some Owner) [(''needMoney'', Num 149)]),
          (fresh [], [listing 150], False))
   \<and> buyCheapest (scripted_layer False (Some 50)) [listing 100, listing 150] None (fresh [])
       = (Inl (MiddlewareError NeedMoney (Some Owner) [(''needMoney'', Num 100)]),
          (fresh [], [listing 150], False))"
  using buyCheapest_needMoney_attempt_price
          [of "scripted_layer True (Some 50)" 50 "listing 100" "[listing 150]" None "fresh []"]
        buyCheapest_needMoney_attempt_price
          [of "scripted_layer False (Some 50)" 50 "listing 100" "[listing 150]" None "fresh []"]
  by (simp add: scripted_layer_def listing_def attemptInstance_def)

theorem needMoney_listed_price_counterexample:
  "price (listing 100) > 50
   \<and> fst (buyCheapest (scripted_layer True (Some 50)) [listing 100, listing 150] None (fresh []))
       \<noteq> Inl (MiddlewareError NeedMoney (Some Owner)
                [(''needMoney'', Num (price (listing 100)))])"
  by (simp add: buyCheapest_def buyAttempt.simps Let_def scripted_layer_def listing_def
      attemptInstance_def getAccountBalance_def MiddlewareError_def)

subsection \<open>Classifying the messages of the marketplace\<close>

lemma EMarketMessage_names_distinct: "distinct (map fst EMarketMessage)"
  by (simp add: EMarketMessage_def)

lemma find_map_of_distinct:
  "distinct (map fst xs) \<Longrightarrow> find (\<lambda>entry. snd entry = m) xs = Some e \<Longrightarrow> map_of xs (fst e) = Some m"
proof (induction xs)
  case Nil
  then show ?case by simp
next
  case (Cons x xs)
  then show ?case
    by (cases x) (auto split: if_splits dest: find_Some_iff[THEN iffD1] simp: image_iff rev_image_eqI
        intro: rev_image_eqI)
qed

lemma EMarketMessage_at_hash:
  "EMarketMessage_at (hash (Some m)) = (if m \<in> snd ` set EMarketMessage then Some m else None)"
proof (cases "find (\<lambda>entry. snd entry = m) EMarketMessage")
  case None
  then have "m \<notin> snd ` set EMarketMessage" by (auto simp: find_None_iff)
  then show ?thesis using None by (simp add: hash_def EMarketMessage_at_def)
next
  case (Some e)
  then have "snd e = m" "e \<in> set EMarketMessage" by (auto simp: find_Some_iff)
  then have "m \<in> snd ` set EMarketMessage" by force
  moreover have "map_of EMarketMessage (fst e) = Some m"
    using find_map_of_distinct[OF EMarketMessage_names_distinct Some] .
  ultimately show ?thesis using Some by (simp add: hash_def EMarketMessage_at_def)
qed

lemma EMarketMessage_at_hash_undefined: "EMarketMessage_at (hash None) = None"
  by (simp add: hash_def EMarketMessage_at_def)

lemma catch_BadOfferPrice:
  "tryToBuy_catch inst uprice (ErrorBody \<lparr>error = Some EMarketMessage_BadOfferPrice, result = r\<rparr>)
     = Inl (MiddlewareError BadOfferPrice (Some Market) [])"
  by (simp add: tryToBuy_catch_def EMarketMessage_at_hash EMarketMessage_def)

lemma catch_BuyOfferExpired:
  "tryToBuy_catch inst uprice (ErrorBody \<lparr>error = Some EMarketMessage_BuyOfferExpired, result = r\<rparr>)
     = Inr None"
proof -
  have "EMarketMessage_BuyOfferExpired \<noteq> EMarketMessage_BadOfferPrice"
    by (simp add: EMarketMessage_BuyOfferExpired_def EMarketMessage_BadOfferPrice_def)
  moreover have "EMarketMessage_BuyOfferExpired \<in> snd ` set EMarketMessage"
    by (simp add: EMarketMessage_def)
  ultimately show ?thesis
    by (simp add: tryToBuy_catch_def EMarketMessage_at_hash Let_def)
qed

lemmas EMarketMessage_strings =
  EMarketMessage_Ok_def EMarketMessage_TooEarlyToPong_def
  EMarketMessage_CheckTokenOrMobile_def EMarketMessage_RequestErrorNoItems_def
  EMarketMessage_RequestErrorWrongBotId_def EMarketMessage_RequestErrorItemListFail_def
  EMarketMessage_RequestUnexpectedError_def EMarketMessage_NeedMoney_def
  EMarketMessage_NeedToTake_def EMarketMessage_BadOfferPrice_def
  EMarketMessage_RequestErrorNoList_def EMarketMessage_BuyOfferExpired_def
  EMarketMessage_SomebodyBuying_def EMarketMessage_ServerError7_def
  EMarketMessage_SteamOrBotProblems_def EMarketMessage_BotIsBanned_def
  EMarketMessage_VacGameBan_def EMarketMessage_InvalidTradeLink_def
  EMarketMessage_SteamInventoryPrivate_def EMarketMessage_OfflineTradeProblem_def
  EMarketMessage_BadTokenInvClosed_def EMarketMessage_CanceledTrades_def
  EMarketMessage_BuyCanceledTrades_def EMarketMessage_ItemReadyToTake_def
  EMarketMessage_SupportAnswer_def

lemma unknown_message_example: "''something new'' \<notin> snd ` set EMarketMessage"
  by (simp add: EMarketMessage_def EMarketMessage_strings)

subsection \<open>The purchase calls of a run\<close>

lemma tryToBuy_logged:
  assumes "tryToBuy L inst td rm = (res, rm1)"
  shows "\<exists>c. buy_calls rm1 = buy_calls rm @ [c] \<and> classified L c = res
             \<and> call_instance c = inst \<and> call_price c = price inst \<and> call_tradeData c = td"
  using assms
  by (auto simp: tryToBuy_def call_buyV2CreateFor_def classified_def Let_def split: prod.splits)

lemma calls_since_append: "buy_calls rm' = buy_calls rm @ cs \<Longrightarrow> calls_since rm rm' = cs"
  by (simp add: calls_since_def)

lemma buyAttempt_trace:
  "buyAttempt L td (rm, queue, bad) = (r, rm', queue', bad') \<Longrightarrow>
   \<exists>cs. buy_calls rm' = buy_calls rm @ cs
        \<and> length (badOfferPrice_calls L cs) \<le> (if bad then 1 else 2)
        \<and> (isBadOfferPrice r \<longleftrightarrow> length (badOfferPrice_calls L cs) = (if bad then 1 else 2))
        \<and> (bad' \<longleftrightarrow> bad \<or> badOfferPrice_calls L cs \<noteq> [])"
proof (induction queue arbitrary: rm bad r rm' queue' bad')
  case Nil
  then show ?case
    by (auto simp: buyAttempt.simps badOfferPrice_calls_def isBadOfferPrice_def MiddlewareError_def)
next
  case (Cons first queue)
  define inst where "inst = attemptInstance L first queue"
  show ?case
  proof (cases "price inst > getAccountBalance L")
    case True
    from buyAttempt_needMoney[OF True[unfolded inst_def], of td rm bad] Cons.prems
    show ?thesis
      by (auto simp: badOfferPrice_calls_def isBadOfferPrice_def MiddlewareError_def)
  next
    case False
    obtain res rm1 where t: "tryToBuy L inst td rm = (res, rm1)"
      by (cases "tryToBuy L inst td rm")
    from tryToBuy_logged[OF t] obtain c where
      c: "buy_calls rm1 = buy_calls rm @ [c]" "classified L c = res" by blast
    have cnt: "badOfferPrice_calls L (c # cs) =
               (if isBadOfferPrice res then c # badOfferPrice_calls L cs else badOfferPrice_calls L cs)" for cs
      using c(2) by (simp add: badOfferPrice_calls_def)
    show ?thesis
    proof (cases res)
      case (Inr b)
      show ?thesis
      proof (cases b)
        case None
        have "buyAttempt L td (rm1, queue, bad) = (r, rm', queue', bad')"
          using buyAttempt_retry[OF False[unfolded inst_def] t[unfolded inst_def Inr None], of bad]
            Cons.prems by simp
        from Cons.IH[OF this] obtain cs where
          cs: "buy_calls rm' = buy_calls rm1 @ cs"
            "length (badOfferPrice_calls L cs) \<le> (if bad then 1 else 2)"
            "isBadOfferPrice r \<longleftrightarrow> length (badOfferPrice_calls L cs) = (if bad then 1 else 2)"
            "bad' \<longleftrightarrow> bad \<or> badOfferPrice_calls L cs \<noteq> []"
          by blast
        have "\<not> isBadOfferPrice res" using Inr by (simp add: isBadOfferPrice_def)
        then have "badOfferPrice_calls L (c # cs) = badOfferPrice_calls L cs" using cnt by simp
        moreover have "buy_calls rm' = buy_calls rm @ (c # cs)" using cs(1) c(1) by simp
        ultimately show ?thesis using cs(2,3,4) by metis
      next
        case (Some bought)
        have "(r, rm', queue', bad') = (Inr bought, rm1, queue, bad)"
          using buyAttempt_bought[OF False[unfolded inst_def] t[unfolded inst_def Inr Some], of bad]
            Cons.prems by simp
        moreover have "badOfferPrice_calls L [c] = []"
          using cnt[of "[]"] Inr by (simp add: isBadOfferPrice_def badOfferPrice_calls_def)
        ultimately show ?thesis using c(1)
          by (intro exI[of _ "[c]"]) (auto simp: isBadOfferPrice_def)
      qed
    next
      case (Inl e)
      show ?thesis
      proof (cases "isMiddlewareError e \<and> type e = Some BadOfferPrice")
        case bop: True
        then have ib: "isBadOfferPrice res" using Inl by (simp add: isBadOfferPrice_def)
        show ?thesis
        proof (cases bad)
          case True
          have "\<not> (isMiddlewareError e \<and> type e = Some BadOfferPrice \<and> \<not> bad)"
            using True by blast
          from buyAttempt_fatal[OF False[unfolded inst_def] t[unfolded inst_def Inl] this]
          have "(r, rm', queue', bad') = (Inl e, rm1, queue, bad)"
            using Cons.prems by simp
          moreover have "badOfferPrice_calls L [c] = [c]"
            using cnt[of "[]"] ib by (simp add: badOfferPrice_calls_def)
          ultimately show ?thesis using c(1) True bop
            by (intro exI[of _ "[c]"]) (auto simp: isBadOfferPrice_def)
        next
          case nb: False
          have "buyAttempt L td (rm1, queue, True) = (r, rm', queue', bad')"
            using buyAttempt_badOfferPrice_first[OF False[unfolded inst_def] t[unfolded inst_def Inl]]
              bop Cons.prems nb by simp
          from Cons.IH[OF this] obtain cs where
            cs: "buy_calls rm' = buy_calls rm1 @ cs"
              "length (badOfferPrice_calls L cs) \<le> 1"
              "isBadOfferPrice r \<longleftrightarrow> length (badOfferPrice_calls L cs) = 1"
              "bad'"
            by auto
          have "badOfferPrice_calls L (c # cs) = c # badOfferPrice_calls L cs" using cnt ib by simp
          moreover have "buy_calls rm' = buy_calls rm @ (c # cs)" using cs(1) c(1) by simp
          ultimately show ?thesis using cs(2,3,4) nb
            by (intro exI[of _ "c # cs"]) auto
        qed
      next
        case nbop: False
        then have nib: "\<not> isBadOfferPrice res" using Inl by (simp add: isBadOfferPrice_def)
        have "\<not> (isMiddlewareError e \<and> type e = Some BadOfferPrice \<and> \<not> bad)"
          using nbop by blast
        from buyAttempt_fatal[OF False[unfolded inst_def] t[unfolded inst_def Inl] this]
        have "(r, rm', queue', bad') = (Inl e, rm1, queue, bad)"
          using Cons.prems by simp
        moreover have "badOfferPrice_calls L [c] = []"
          using cnt[of "[]"] nib by (simp add: badOfferPrice_calls_def)
        ultimately show ?thesis using c(1) nbop
          by (intro exI[of _ "[c]"]) (auto simp: isBadOfferPrice_def)
      qed
    qed
  qed
qed

subsection \<open>Runs against the scripted marketplace\<close>

lemma scripted_layer_sel:
  "api (scripted_layer hack balance) = scripted_api"
  "wallet (scripted_layer hack balance) = balance"
  "hackExpiredOffers (config (scripted_layer hack balance)) = hack"
  "applyDiscounts (config (scripted_layer hack balance)) = False"
  by (simp_all add: scripted_layer_def)

lemma scripted_tryToBuy:
  "world rm = reply # script \<Longrightarrow>
   tryToBuy (scripted_layer hack balance) inst tradeData rm =
     (tryToBuy_settle (scripted_layer hack balance) inst (price inst) reply,
      rm\<lparr>world := script,
         buy_calls := buy_calls rm @
           [\<lparr>call_instance = inst, call_price = price inst, call_tradeData = tradeData,
             call_reply = reply\<rparr>]\<rparr>)"
  by (simp add: tryToBuy_def Let_def call_buyV2CreateFor_def scripted_layer_sel scripted_api_def)

lemma settle_BadOfferPrice:
  "tryToBuy_settle L inst uprice (rejected_with EMarketMessage_BadOfferPrice)
     = Inl (MiddlewareError BadOfferPrice (Some Market) [])"
  by (simp add: tryToBuy_settle_def rejected_with_def catch_BadOfferPrice)

lemma settle_BuyOfferExpired:
  "tryToBuy_settle L inst uprice (rejected_with EMarketMessage_BuyOfferExpired) = Inr None"
  by (simp add: tryToBuy_settle_def rejected_with_def catch_BuyOfferExpired)


subsection \<open>A price the marketplace refuses\<close>

text \<open>
  Claim C1. While the flag \<open>badItemPrice\<close> is down, an attempt that \<open>_tryToBuy\<close> fails
  with \<open>BadOfferPrice\<close> raises the flag and \<open>buyAttempt\<close> goes on with the rest of the
  array; with the flag up the same failure is the result of the run. \<open>buyCheapest\<close>
  starts with the flag down, so among the purchase calls of one run at most two are
  classified \<open>BadOfferPrice\<close>, the run fails with \<open>BadOfferPrice\<close> exactly when there
  were two, and the flag is up at the end exactly when there was one.
\<close>

theorem badOfferPrice_retried_once:
  "(\<not> price (attemptInstance L first queue) > getAccountBalance L
      \<and> tryToBuy L (attemptInstance L first queue) tradeData rm = (Inl e, rm1)
      \<and> isMiddlewareError e \<and> type e = Some BadOfferPrice
    \<longrightarrow> buyAttempt L tradeData (rm, first # queue, False)
          = buyAttempt L tradeData (rm1, queue, True)
        \<and> buyAttempt L tradeData (rm, first # queue, True) = (Inl e, (rm1, queue, True)))
   \<and> (case buyCheapest L offers' tradeData rm0 of
         (r, rm', queue', bad') \<Rightarrow>
           length (badOfferPrice_calls L (calls_since rm0 rm')) \<le> 2
           \<and> (isBadOfferPrice r \<longleftrightarrow> length (badOfferPrice_calls L (calls_since rm0 rm')) = 2)
           \<and> (bad' \<longleftrightarrow> badOfferPrice_calls L (calls_since rm0 rm') \<noteq> []))"
proof -
  have step: "buyAttempt L tradeData (rm, first # queue, False)
                = buyAttempt L tradeData (rm1, queue, True)
              \<and> buyAttempt L tradeData (rm, first # queue, True) = (Inl e, (rm1, queue, True))"
    if adm: "\<not> price (attemptInstance L first queue) > getAccountBalance L"
      and t: "tryToBuy L (attemptInstance L first queue) tradeData rm = (Inl e, rm1)"
      and bop: "isMiddlewareError e" "type e = Some BadOfferPrice"
  proof -
    have "\<not> (isMiddlewareError e \<and> type e = Some BadOfferPrice \<and> \<not> True)" by simp
    from buyAttempt_fatal[OF adm t this] buyAttempt_badOfferPrice_first[OF adm t bop]
    show ?thesis by simp
  qed
  obtain r rm' queue' bad' where
    run: "buyAttempt L tradeData (rm0, offers', False) = (r, rm', queue', bad')"
    by (cases "buyAttempt L tradeData (rm0, offers', False)") auto
  from buyAttempt_trace[OF run] obtain cs where
    cs: "buy_calls rm' = buy_calls rm0 @ cs"
      "length (badOfferPrice_calls L cs) \<le> 2"
      "isBadOfferPrice r \<longleftrightarrow> length (badOfferPrice_calls L cs) = 2"
      "bad' \<longleftrightarrow> badOfferPrice_calls L cs \<noteq> []"
    by auto
  have "calls_since rm0 rm' = cs" using cs(1) by (rule calls_since_append)
  then have "case buyCheapest L offers' tradeData rm0 of
         (r, rm', queue', bad') \<Rightarrow>
           length (badOfferPrice_calls L (calls_since rm0 rm')) \<le> 2
           \<and> (isBadOfferPrice r \<longleftrightarrow> length (badOfferPrice_calls L (calls_since rm0 rm')) = 2)
           \<and> (bad' \<longleftrightarrow> badOfferPrice_calls L (calls_since rm0 rm') \<noteq> [])"
    using cs(2,3,4) run by (simp add: buyCheapest_def)
  with step show ?thesis by blast
qed

theorem badOfferPrice_retried_once_witness:
  "\<not> price (attemptInstance (scripted_layer True None) (listing 100) [listing 150, listing 200])
       > getAccountBalance (scripted_layer True None)
   \<and> fst (tryToBuy (scripted_layer True None)
            (attemptInstance (scripted_layer True None) (listing 100) [listing 150, listing 200])
            None
            (fresh [rejected_with EMarketMessage_BadOfferPrice,
                    rejected_with EMarketMessage_BadOfferPrice]))
       = Inl (MiddlewareError BadOfferPrice (Some Market) [])
   \<and> isMiddlewareError (MiddlewareError BadOfferPrice (Some Market) [])
   \<and> type (MiddlewareError BadOfferPrice (Some Market) []) = Some BadOfferPrice
   \<and> fst (buyCheapest (scripted_layer True None) [listing 100, listing 150, listing 200] None
            (fresh [rejected_with EMarketMessage_BadOfferPrice,
                    rejected_with EMarketMessage_BadOfferPrice]))
       = Inl (MiddlewareError BadOfferPrice (Some Market) [])
   \<and> fst (snd (snd (buyCheapest (scripted_layer True None)
            [listing 100, listing 150, listing 200] None
            (fresh [rejected_with EMarketMessage_BadOfferPrice,
                    rejected_with EMarketMessage_BadOfferPrice]))))
       = [listing 200]"
proof -
  let ?L = "scripted_layer True None"
  let ?bop = "rejected_with EMarketMessage_BadOfferPrice"
  let ?rm0 = "fresh [?bop, ?bop]"
  let ?i1 = "attemptInstance ?L (listing 100) [listing 150, listing 200]"
  let ?i2 = "attemptInstance ?L (listing 150) [listing 200]"
  let ?e = "MiddlewareError BadOfferPrice (Some Market) []"
  let ?call = "\<lambda>i. \<lparr>call_instance = i, call_price = price i, call_tradeData = None,
                      call_reply = ?bop\<rparr>"
  let ?rm1 = "?rm0\<lparr>world := [?bop], buy_calls := buy_calls ?rm0 @ [?call ?i1]\<rparr>"
  let ?rm2 = "?rm1\<lparr>world := [], buy_calls := buy_calls ?rm1 @ [?call ?i2]\<rparr>"
  have e: "isMiddlewareError ?e" "type ?e = Some BadOfferPrice"
    by (simp_all add: MiddlewareError_def)
  have adm1: "\<not> price ?i1 > getAccountBalance ?L"
    by (simp add: attemptInstance_def listing_def getAccountBalance_def scripted_layer_sel
        Number_MAX_VALUE_def)
  have adm2: "\<not> price ?i2 > getAccountBalance ?L"
    by (simp add: attemptInstance_def listing_def getAccountBalance_def scripted_layer_sel
        Number_MAX_VALUE_def)
  have t1: "tryToBuy ?L ?i1 None ?rm0 = (Inl ?e, ?rm1)"
    by (simp add: scripted_tryToBuy[where script = "[?bop]"] settle_BadOfferPrice fresh_def)
  have t2: "tryToBuy ?L ?i2 None ?rm1 = (Inl ?e, ?rm2)"
    by (simp add: scripted_tryToBuy[where script = "[]"] settle_BadOfferPrice)
  have s1: "buyAttempt ?L None (?rm0, [listing 100, listing 150, listing 200], False)
              = buyAttempt ?L None (?rm1, [listing 150, listing 200], True)"
    using badOfferPrice_retried_once
            [of ?L "listing 100" "[listing 150, listing 200]" None ?rm0 ?e ?rm1]
          adm1 t1 e by blast
  have s2: "buyAttempt ?L None (?rm1, [listing 150, listing 200], True)
              = (Inl ?e, (?rm2, [listing 200], True))"
    using badOfferPrice_retried_once
            [of ?L "listing 150" "[listing 200]" None ?rm1 ?e ?rm2]
          adm2 t2 e by blast
  have run: "buyCheapest ?L [listing 100, listing 150, listing 200] None ?rm0
               = (Inl ?e, (?rm2, [listing 200], True))"
    using s1 s2 by (simp add: buyCheapest_def)
  show ?thesis
    using adm1 t1 e run by simp
qed

lemma buyAttempt_calls_extend:
  "\<exists>cs. buy_calls (fst (snd (buyAttempt L td (rm, queue, bad)))) = buy_calls rm @ cs"
proof -
  obtain r rm' queue' bad' where
    run: "buyAttempt L td (rm, queue, bad) = (r, rm', queue', bad')"
    by (cases "buyAttempt L td (rm, queue, bad)") auto
  from buyAttempt_trace[OF run] show ?thesis using run by auto
qed

lemma buyAttempt_first_call:
  assumes adm: "\<not> price (attemptInstance L first queue) > getAccountBalance L"
  shows "\<exists>c cs. buy_calls (fst (snd (buyAttempt L td (rm, first # queue, bad))))
                   = buy_calls rm @ c # cs
               \<and> call_instance c = attemptInstance L first queue
               \<and> call_price c = price (attemptInstance L first queue)
               \<and> call_tradeData c = td"
proof -
  define inst where "inst = attemptInstance L first queue"
  obtain res rm1 where t: "tryToBuy L inst td rm = (res, rm1)"
    by (cases "tryToBuy L inst td rm")
  from tryToBuy_logged[OF t] obtain c where
    c: "buy_calls rm1 = buy_calls rm @ [c]" "call_instance c = inst"
       "call_price c = price inst" "call_tradeData c = td"
    by blast
  have "\<exists>cs. buy_calls (fst (snd (buyAttempt L td (rm, first # queue, bad)))) = buy_calls rm1 @ cs"
  proof (cases res)
    case (Inr b)
    show ?thesis
    proof (cases b)
      case None
      from buyAttempt_retry[OF adm t[unfolded inst_def Inr None], of bad]
        buyAttempt_calls_extend[of L td rm1 queue bad]
      show ?thesis by simp
    next
      case (Some bought)
      from buyAttempt_bought[OF adm t[unfolded inst_def Inr Some], of bad]
      show ?thesis by simp
    qed
  next
    case (Inl e)
    show ?thesis
    proof (cases "isMiddlewareError e \<and> type e = Some BadOfferPrice \<and> \<not> bad")
      case True
      then have "buyAttempt L td (rm, first # queue, bad) = buyAttempt L td (rm1, queue, True)"
        using buyAttempt_badOfferPrice_first[OF adm t[unfolded inst_def Inl]] by simp
      with buyAttempt_calls_extend[of L td rm1 queue True] show ?thesis by simp
    next
      case False
      from buyAttempt_fatal[OF adm t[unfolded inst_def Inl] False]
      show ?thesis by simp
    qed
  qed
  then show ?thesis using c by (auto simp: inst_def)
qed

subsection \<open>The price of an attempt\<close>

text \<open>
  Claim C2. With \<open>hackExpiredOffers\<close> on and a further offer in the array, the offer
  taken from the array is tried at the greater of its price and the next offer's price
  less one, and \<open>min_price\<close> keeps its listed price; the last offer of the array is
  tried as it is. When the balance admits the attempt, the first purchase call of the run
  is issued for that offer at that price. (For the offers [100, 150] the price is 149, for
  [100, 105] it is 104: the witness.)
\<close>

theorem price_floor_adjustment:
  "(hackExpiredOffers (config L) \<longrightarrow>
      price (attemptInstance L first (nextInstance # rest))
        = max (price first) (price nextInstance - 1)
      \<and> min_price (attemptInstance L first (nextInstance # rest)) = Some (price first))
   \<and> attemptInstance L first [] = first
   \<and> (\<not> price (attemptInstance L first queue) > getAccountBalance L \<longrightarrow>
        (\<exists>c cs. calls_since rm (fst (snd (buyCheapest L (first # queue) tradeData rm))) = c # cs
               \<and> call_instance c = attemptInstance L first queue
               \<and> call_price c = price (attemptInstance L first queue)))"
proof -
  have "\<exists>c cs. calls_since rm (fst (snd (buyCheapest L (first # queue) tradeData rm))) = c # cs
               \<and> call_instance c = attemptInstance L first queue
               \<and> call_price c = price (attemptInstance L first queue)"
    if adm: "\<not> price (attemptInstance L first queue) > getAccountBalance L"
  proof -
    from buyAttempt_first_call[OF adm, of tradeData rm False] obtain c cs where
      "buy_calls (fst (snd (buyAttempt L tradeData (rm, first # queue, False))))
         = buy_calls rm @ c # cs"
      "call_instance c = attemptInstance L first queue"
      "call_price c = price (attemptInstance L first queue)"
      by blast
    then show ?thesis
      by (auto simp: buyCheapest_def calls_since_def)
  qed
  then show ?thesis by (simp add: attemptInstance_def)
qed

theorem price_floor_adjustment_witness:
  "hackExpiredOffers (config (scripted_layer True None))
   \<and> price (attemptInstance (scripted_layer True None) (listing 100) [listing 150]) = 149
   \<and> min_price (attemptInstance (scripted_layer True None) (listing 100) [listing 150]) = Some 100
   \<and> price (attemptInstance (scripted_layer True None) (listing 100) [listing 105]) = 104
   \<and> price (attemptInstance (scripted_layer True None) (listing 100) []) = 100
   \<and> \<not> price (attemptInstance (scripted_layer True None) (listing 100) [listing 150])
         > getAccountBalance (scripted_layer True None)
   \<and> call_price (hd (calls_since (fresh [])
        (fst (snd (buyCheapest (scripted_layer True None) [listing 100, listing 150] None
                     (fresh [])))))) = 149"
proof -
  let ?L = "scripted_layer True None"
  have hack: "hackExpiredOffers (config ?L)" by (simp add: scripted_layer_sel)
  have adm: "\<not> price (attemptInstance ?L (listing 100) [listing 150]) > getAccountBalance ?L"
    by (simp add: attemptInstance_def listing_def getAccountBalance_def scripted_layer_sel
        Number_MAX_VALUE_def)
  note a = price_floor_adjustment[of ?L "listing 100" "listing 150" "[]" "[listing 150]"
      "fresh []" None]
  note b = price_floor_adjustment[of ?L "listing 100" "listing 105" "[]" "[]" "fresh []" None]
  have p1: "price (attemptInstance ?L (listing 100) [listing 150]) = 149"
    and m1: "min_price (attemptInstance ?L (listing 100) [listing 150]) = Some 100"
    using a hack by (simp_all add: listing_def)
  have p2: "price (attemptInstance ?L (listing 100) [listing 105]) = 104"
    using b hack by (simp add: listing_def)
  have p3: "price (attemptInstance ?L (listing 100) []) = 100"
    using b by (simp add: listing_def)
  have "call_price (hd (calls_since (fresh [])
        (fst (snd (buyCheapest ?L [listing 100, listing 150] None (fresh [])))))) = 149"
    using a adm p1 by auto
  then show ?thesis using hack adm p1 m1 p2 p3 by simp
qed

subsection \<open>Messages the table does not list\<close>

lemma catch_unlisted:
  "error resp = Some m \<Longrightarrow> m \<notin> snd ` set EMarketMessage \<Longrightarrow>
   tryToBuy_catch inst uprice (ErrorBody resp) = Inr None"
  by (simp add: tryToBuy_catch_def EMarketMessage_at_hash)

lemma catch_no_message:
  "error resp = None \<Longrightarrow> tryToBuy_catch inst uprice (ErrorBody resp) = Inr None"
  by (simp add: tryToBuy_catch_def EMarketMessage_at_hash_undefined)

text \<open>
  Claim C4. A rejection whose message is the message of no entry of \<open>EMarketMessage\<close> makes
  the \<open>catch\<close> handler of \<open>_tryToBuy\<close> return \<open>null\<close>, never an error; and in the loop,
  when the purchase call of an admitted attempt is rejected so, \<open>buyAttempt\<close> drops
  the offer and goes on with the rest of the array, the flag as it was.
\<close>

theorem unlisted_message_silent_retry:
  "error resp = Some m \<and> m \<notin> snd ` set EMarketMessage \<longrightarrow>
     tryToBuy_catch inst uprice (ErrorBody resp) = Inr None
     \<and> (\<not> price (attemptInstance L first queue) > getAccountBalance L
          \<and> fst (buyV2CreateFor (api L) (world rm) (attemptInstance L first queue)
                 (price (attemptInstance L first queue)) tradeData)
              = Rejected (ErrorBody resp)
        \<longrightarrow> fst (tryToBuy L (attemptInstance L first queue) tradeData rm) = Inr None
            \<and> buyAttempt L tradeData (rm, first # queue, bad)
                = buyAttempt L tradeData
                    (snd (tryToBuy L (attemptInstance L first queue) tradeData rm), queue, bad))"
proof (intro impI conjI; (elim conjE)?)
  assume m: "error resp = Some m" "m \<notin> snd ` set EMarketMessage"
  show c: "tryToBuy_catch inst uprice (ErrorBody resp) = Inr None" for inst uprice
    using m by (rule catch_unlisted)
  assume adm: "\<not> price (attemptInstance L first queue) > getAccountBalance L"
    and rej: "fst (buyV2CreateFor (api L) (world rm) (attemptInstance L first queue)
                 (price (attemptInstance L first queue)) tradeData)
              = Rejected (ErrorBody resp)"
  show t: "fst (tryToBuy L (attemptInstance L first queue) tradeData rm) = Inr None"
    using rej c
    by (auto simp: tryToBuy_def call_buyV2CreateFor_def tryToBuy_settle_def Let_def
        split: prod.splits)
  then have "tryToBuy L (attemptInstance L first queue) tradeData rm
               = (Inr None, snd (tryToBuy L (attemptInstance L first queue) tradeData rm))"
    by (simp add: prod_eq_iff)
  from buyAttempt_retry[OF adm this]
  show "buyAttempt L tradeData (rm, first # queue, bad)
          = buyAttempt L tradeData
              (snd (tryToBuy L (attemptInstance L first queue) tradeData rm), queue, bad)" .
qed

theorem unlisted_message_silent_retry_witness:
  "''something new'' \<notin> snd ` set EMarketMessage
   \<and> tryToBuy_catch (listing 100) 100
         (ErrorBody \<lparr>error = Some ''something new'', result = None\<rparr>) = Inr None
   \<and> \<not> price (attemptInstance (scripted_layer False None) (listing 100) [listing 150])
         > getAccountBalance (scripted_layer False None)
   \<and> fst (tryToBuy (scripted_layer False None)
            (attemptInstance (scripted_layer False None) (listing 100) [listing 150]) None
            (fresh [rejected_with ''something new''])) = Inr None
   \<and> buyAttempt (scripted_layer False None) None
         (fresh [rejected_with ''something new''], [listing 100, listing 150], False)
       = buyAttempt (scripted_layer False None) None
           (snd (tryToBuy (scripted_layer False None)
                   (attemptInstance (scripted_layer False None) (listing 100) [listing 150]) None
                   (fresh [rejected_with ''something new''])),
            [listing 150], False)"
proof -
  let ?L = "scripted_layer False None"
  let ?resp = "\<lparr>error = Some ''something new'', result = None\<rparr>"
  have adm: "\<not> price (attemptInstance ?L (listing 100) [listing 150]) > getAccountBalance ?L"
    by (simp add: attemptInstance_def listing_def getAccountBalance_def scripted_layer_sel
        Number_MAX_VALUE_def)
  have rej: "fst (buyV2CreateFor (api ?L) (world (fresh [rejected_with ''something new'']))
                 (attemptInstance ?L (listing 100) [listing 150])
                 (price (attemptInstance ?L (listing 100) [listing 150])) None)
              = Rejected (ErrorBody ?resp)"
    by (simp add: scripted_layer_sel scripted_api_def fresh_def rejected_with_def)
  have e: "error ?resp = Some ''something new''" by simp
  from unlisted_message_silent_retry
         [of ?resp "''something new''" "listing 100" 100 ?L "listing 100" "[listing 150]"
            "fresh [rejected_with ''something new'']" None False]
       e unknown_message_example adm rej
  show ?thesis by blast
qed

subsection \<open>A run of retries only\<close>

lemma attemptInstance_price_le:
  assumes "price first \<le> b" and "\<forall>x \<in> set queue. price x \<le> b"
  shows "price (attemptInstance L first queue) \<le> b"
  using assms by (cases queue) (auto simp: attemptInstance_def)

lemma buyAttempt_all_retry_affordable:
  assumes retry: "\<forall>inst rm. fst (tryToBuy L inst td rm) = Inr None"
    and afford: "\<forall>x \<in> set queue. price x \<le> getAccountBalance L"
  shows "\<exists>rm'. buyAttempt L td (rm, queue, bad)
                  = (Inl (MiddlewareError AttemptsFailed (Some Market) []), (rm', [], bad))
               \<and> length (buy_calls rm') = length (buy_calls rm) + length queue"
  using afford
proof (induction queue arbitrary: rm)
  case Nil
  then show ?case by (simp add: buyAttempt_empty)
next
  case (Cons first queue)
  have adm: "\<not> price (attemptInstance L first queue) > getAccountBalance L"
    using attemptInstance_price_le[of first "getAccountBalance L" queue L] Cons.prems by simp
  obtain rm1 where t: "tryToBuy L (attemptInstance L first queue) td rm = (Inr None, rm1)"
    using retry by (metis prod.collapse)
  from tryToBuy_logged[OF t] have len: "length (buy_calls rm1) = length (buy_calls rm) + 1"
    by auto
  from Cons.IH[of rm1] Cons.prems obtain rm' where
    "buyAttempt L td (rm1, queue, bad)
       = (Inl (MiddlewareError AttemptsFailed (Some Market) []), (rm', [], bad))"
    "length (buy_calls rm') = length (buy_calls rm1) + length queue"
    by auto
  then show ?case using buyAttempt_retry[OF adm t, of bad] len by simp
qed

lemma buyAttempt_all_retry:
  assumes retry: "\<forall>inst rm. fst (tryToBuy L inst td rm) = Inr None"
  shows "fst (buyAttempt L td (rm, queue, bad)) = Inl (MiddlewareError AttemptsFailed (Some Market) [])
       \<or> (\<exists>p. p > getAccountBalance L
              \<and> fst (buyAttempt L td (rm, queue, bad))
                   = Inl (MiddlewareError NeedMoney (Some Owner) [(''needMoney'', Num p)]))"
proof (induction queue arbitrary: rm)
  case Nil
  then show ?case by (simp add: buyAttempt_empty)
next
  case (Cons first queue)
  show ?case
  proof (cases "price (attemptInstance L first queue) > getAccountBalance L")
    case True
    then show ?thesis using buyAttempt_needMoney[OF True, of td rm bad] by auto
  next
    case False
    obtain rm1 where t: "tryToBuy L (attemptInstance L first queue) td rm = (Inr None, rm1)"
      using retry by (metis prod.collapse)
    show ?thesis using buyAttempt_retry[OF False t, of bad] Cons.IH[of rm1] by simp
  qed
qed

lemma expired_tryToBuy: "fst (tryToBuy expired_layer inst td rm) = Inr None"
  by (simp add: tryToBuy_def Let_def call_buyV2CreateFor_def expired_layer_def expired_api_def
      settle_BuyOfferExpired)

text \<open>
  Claim C5, as the code has it. \<open>buyAttempt\<close> is a total function: every run returns.
  When every attempt is answered so that \<open>_tryToBuy\<close> returns \<open>null\<close>, the run never
  returns a purchase: it fails with \<open>AttemptsFailed\<close> (source \<open>Market\<close>), or with
  \<open>NeedMoney\<close> (source \<open>Owner\<close>) and a price above the balance, when the balance check
  refuses an attempt. When every offer of the array is within the balance, the array is
  used up, one purchase call per offer, and the failure is \<open>AttemptsFailed\<close>. (With a
  balance of 120 and the offers [100, 150] the run ends in \<open>NeedMoney\<close>: the
  counterexample.)
\<close>

theorem all_retries_attemptsFailed:
  assumes "\<forall>inst rm. fst (tryToBuy L inst tradeData rm) = Inr None"
  shows "(\<forall>bought. fst (buyCheapest L queue tradeData rm) \<noteq> Inr bought)
       \<and> (fst (buyCheapest L queue tradeData rm)
             = Inl (MiddlewareError AttemptsFailed (Some Market) [])
          \<or> (\<exists>p. p > getAccountBalance L
                 \<and> fst (buyCheapest L queue tradeData rm)
                      = Inl (MiddlewareError NeedMoney (Some Owner) [(''needMoney'', Num p)])))
       \<and> ((\<forall>x \<in> set queue. price x \<le> getAccountBalance L) \<longrightarrow>
            fst (buyCheapest L queue tradeData rm)
              = Inl (MiddlewareError AttemptsFailed (Some Market) [])
            \<and> fst (snd (snd (buyCheapest L queue tradeData rm))) = []
            \<and> length (calls_since rm (fst (snd (buyCheapest L queue tradeData rm))))
                = length queue)"
proof -
  note r = buyAttempt_all_retry[OF assms, of rm queue False]
  have a: "fst (buyCheapest L queue tradeData rm)
              = Inl (MiddlewareError AttemptsFailed (Some Market) [])
            \<and> fst (snd (snd (buyCheapest L queue tradeData rm))) = []
            \<and> length (calls_since rm (fst (snd (buyCheapest L queue tradeData rm))))
                = length queue"
    if "\<forall>x \<in> set queue. price x \<le> getAccountBalance L"
    using buyAttempt_all_retry_affordable[OF assms that, of rm False]
    by (auto simp: buyCheapest_def calls_since_def)
  from r have "\<forall>bought. fst (buyCheapest L queue tradeData rm) \<noteq> Inr bought"
    by (auto simp: buyCheapest_def)
  with r a show ?thesis by (simp add: buyCheapest_def)
qed

theorem all_retries_attemptsFailed_witness:
  "fst (tryToBuy expired_layer (listing 100) None (fresh 0)) = Inr None
   \<and> price (listing 100) \<le> getAccountBalance expired_layer
   \<and> price (listing 150) \<le> getAccountBalance expired_layer
   \<and> fst (buyCheapest expired_layer [listing 100, listing 150] None (fresh 0))
        = Inl (MiddlewareError AttemptsFailed (Some Market) [])
   \<and> length (calls_since (fresh 0)
        (fst (snd (buyCheapest expired_layer [listing 100, listing 150] None (fresh 0))))) = 2"
proof -
  have r: "\<forall>inst rm. fst (tryToBuy expired_layer inst None rm) = Inr None"
    by (simp add: expired_tryToBuy)
  have a: "\<forall>x \<in> set [listing 100, listing 150]. price x \<le> getAccountBalance expired_layer"
    by (simp add: listing_def getAccountBalance_def expired_layer_def)
  from all_retries_attemptsFailed[OF r, of "[listing 100, listing 150]" "fresh 0"] a
  show ?thesis using r by auto
qed

lemma expired_120_tryToBuy:
  "tryToBuy expired_layer_120 inst td rm =
     (Inr None,
      rm\<lparr>world := Suc (world rm),
         buy_calls := buy_calls rm @
           [\<lparr>call_instance = inst, call_price = price inst, call_tradeData = td,
             call_reply = rejected_with EMarketMessage_BuyOfferExpired\<rparr>]\<rparr>)"
  by (simp add: tryToBuy_def Let_def call_buyV2CreateFor_def expired_layer_120_def
      expired_api_def settle_BuyOfferExpired)

theorem retries_then_needMoney_counterexample:
  "fst (tryToBuy expired_layer_120 (listing 100) None (fresh 0)) = Inr None
   \<and> fst (buyCheapest expired_layer_120 [listing 100, listing 150] None (fresh 0))
        = Inl (MiddlewareError NeedMoney (Some Owner) [(''needMoney'', Num 150)])
   \<and> fst (buyCheapest expired_layer_120 [listing 100, listing 150] None (fresh 0))
        \<noteq> Inl (MiddlewareError AttemptsFailed (Some Market) [])
   \<and> fst (snd (snd (buyCheapest expired_layer_120 [listing 100, listing 150] None (fresh 0))))
        = []
   \<and> length (calls_since (fresh 0)
        (fst (snd (buyCheapest expired_layer_120 [listing 100, listing 150] None (fresh 0)))))
        = 1"
proof -
  let ?L = "expired_layer_120"
  let ?rm1 = "(fresh (0::nat))\<lparr>world := Suc (world (fresh (0::nat))),
         buy_calls := buy_calls (fresh (0::nat)) @
           [\<lparr>call_instance = listing 100, call_price = price (listing 100),
             call_tradeData = None,
             call_reply = rejected_with EMarketMessage_BuyOfferExpired\<rparr>]\<rparr>"
  have i1: "attemptInstance ?L (listing 100) [listing 150] = listing 100"
    and i2: "attemptInstance ?L (listing 150) [] = listing 150"
    by (simp_all add: attemptInstance_def expired_layer_120_def)
  have b: "getAccountBalance ?L = 120"
    by (simp add: getAccountBalance_def expired_layer_120_def)
  have adm1: "\<not> price (attemptInstance ?L (listing 100) [listing 150]) > getAccountBalance ?L"
    unfolding i1 b by (simp add: listing_def)
  have no2: "price (attemptInstance ?L (listing 150) []) > getAccountBalance ?L"
    unfolding i2 b by (simp add: listing_def)
  have t1: "tryToBuy ?L (attemptInstance ?L (listing 100) [listing 150]) None (fresh (0::nat))
              = (Inr None, ?rm1)"
    unfolding i1 by (rule expired_120_tryToBuy)
  have s1: "buyAttempt ?L None (fresh (0::nat), [listing 100, listing 150], False)
              = buyAttempt ?L None (?rm1, [listing 150], False)"
    by (rule buyAttempt_retry[OF adm1 t1])
  have s2: "buyAttempt ?L None (?rm1, [listing 150], False)
              = (Inl (MiddlewareError NeedMoney (Some Owner)
                        [(''needMoney'', Num (price (attemptInstance ?L (listing 150) [])))]),
                 (?rm1, [], False))"
    by (rule buyAttempt_needMoney[OF no2])
  have p: "price (attemptInstance ?L (listing 150) []) = 150"
    unfolding i2 by (simp add: listing_def)
  have run: "buyCheapest ?L [listing 100, listing 150] None (fresh (0::nat))
               = (Inl (MiddlewareError NeedMoney (Some Owner) [(''needMoney'', Num 150)]),
                  (?rm1, [], False))"
    unfolding buyCheapest_def s1 s2 p ..
  have ne: "MiddlewareError NeedMoney (Some Owner) [(''needMoney'', Num 150)]
              \<noteq> MiddlewareError AttemptsFailed (Some Market) []"
    by (simp add: MiddlewareError_def)
  have c: "length (calls_since (fresh (0::nat)) ?rm1) = 1"
    by (simp add: calls_since_def fresh_def)
  have t: "fst (tryToBuy ?L (listing 100) None (fresh (0::nat))) = Inr None"
    by (simp add: expired_120_tryToBuy)
  show ?thesis unfolding run using ne c t by simp
qed

subsection \<open>The outcomes of an attempt\<close>

lemma catch_ErrorBody_outcomes:
  "tryToBuy_catch inst uprice (ErrorBody body) = Inr None
   \<or> (\<exists>e. tryToBuy_catch inst uprice (ErrorBody body) = Inl e \<and> isMiddlewareError e)"
  by (simp add: tryToBuy_catch_def Let_def MiddlewareError_def)

lemma scripted_run_single:
  assumes "world rm = [reply]"
    and "tryToBuy_settle (scripted_layer hack None) first (price first) reply = Inl e"
    and "\<not> isMiddlewareError e"
    and "price first \<le> Number_MAX_VALUE"
  shows "fst (buyCheapest (scripted_layer hack None) [first] td rm) = Inl e"
proof -
  let ?L = "scripted_layer hack None"
  have ai: "attemptInstance ?L first [] = first" by (simp add: attemptInstance_def)
  have adm: "\<not> price (attemptInstance ?L first []) > getAccountBalance ?L"
    using assms(4) by (simp add: ai getAccountBalance_def scripted_layer_sel)
  have t: "tryToBuy ?L (attemptInstance ?L first []) td rm
             = (Inl e, rm\<lparr>world := [], buy_calls := buy_calls rm @
                 [\<lparr>call_instance = first, call_price = price first, call_tradeData = td,
                   call_reply = reply\<rparr>]\<rparr>)"
    using scripted_tryToBuy[OF assms(1), of hack None first td] assms(2) by (simp add: ai)
  have "\<not> (isMiddlewareError e \<and> type e = Some BadOfferPrice \<and> \<not> False)"
    using assms(3) by simp
  from buyAttempt_fatal[OF adm t this] show ?thesis by (simp add: buyCheapest_def)
qed

text \<open>
  Claim C10, as the code has it. A response that reports success gives a purchase; a
  rejection that carries an error object gives \<open>null\<close> (the next offer is tried) or a
  \<open>MiddlewareError\<close>; a response that does not report success gives an exception that
  is not a \<open>MiddlewareError\<close>. (A rejection with nothing to read at
  \<open>error.response.body.error\<close> is outside this statement: the counterexample shows it
  ends in a \<open>TypeError\<close>, which \<open>buyCheapest\<close> passes on.)
\<close>

theorem attempt_outcomes:
  "(success resp \<longrightarrow>
      (\<exists>bought. tryToBuy_settle L inst uprice (Resolved resp) = Inr (Some bought)))
   \<and> (tryToBuy_settle L inst uprice (Rejected (ErrorBody body)) = Inr None
      \<or> (\<exists>e. tryToBuy_settle L inst uprice (Rejected (ErrorBody body)) = Inl e
             \<and> isMiddlewareError e))
   \<and> (\<not> success resp \<longrightarrow>
      (\<exists>e. tryToBuy_settle L inst uprice (Resolved resp) = Inl e \<and> \<not> isMiddlewareError e))"
  using catch_ErrorBody_outcomes[of inst uprice body]
  by (simp add: tryToBuy_settle_def tryToBuy_then_def tryToBuy_catch_def TypeError_def)

theorem attempt_outcomes_witness:
  "success \<lparr>success = True, response_id = 7\<rparr>
   \<and> (\<exists>bought. tryToBuy_settle (scripted_layer False None) (listing 100) 100
          (Resolved \<lparr>success = True, response_id = 7\<rparr>) = Inr (Some bought))
   \<and> \<not> success \<lparr>success = False, response_id = 7\<rparr>
   \<and> (\<exists>e. tryToBuy_settle (scripted_layer False None) (listing 100) 100
          (Resolved \<lparr>success = False, response_id = 7\<rparr>) = Inl e \<and> \<not> isMiddlewareError e)"
  using attempt_outcomes[of "\<lparr>success = True, response_id = 7\<rparr>" "scripted_layer False None"
          "listing 100" 100 "\<lparr>error = None, result = None\<rparr>"]
        attempt_outcomes[of "\<lparr>success = False, response_id = 7\<rparr>" "scripted_layer False None"
          "listing 100" 100 "\<lparr>error = None, result = None\<rparr>"]
  by simp

theorem rejection_without_body_counterexample:
  "fst (tryToBuy (scripted_layer False None) (listing 100) None (fresh [Rejected NoResponse]))
     = Inl TypeError
   \<and> \<not> isMiddlewareError TypeError
   \<and> fst (buyCheapest (scripted_layer False None) [listing 100] None
            (fresh [Rejected NoResponse])) = Inl TypeError"
proof -
  have s: "tryToBuy_settle (scripted_layer False None) (listing 100) (price (listing 100))
             (Rejected NoResponse) = Inl TypeError"
    by (simp add: tryToBuy_settle_def tryToBuy_catch_def)
  have n: "\<not> isMiddlewareError TypeError" by (simp add: TypeError_def)
  have w: "world (fresh [Rejected NoResponse]) = [Rejected NoResponse]" by (simp add: fresh_def)
  have p: "price (listing 100) \<le> Number_MAX_VALUE"
    by (simp add: listing_def Number_MAX_VALUE_def)
  from scripted_tryToBuy[OF w, of False None "listing 100" None] s
    scripted_run_single[OF w s n p, of None] n
  show ?thesis by simp
qed

subsection \<open>The result of a purchase\<close>

lemma applyDiscount_off: "\<not> applyDiscounts (config L) \<Longrightarrow> applyDiscount L p = p"
  by (simp add: applyDiscount_def)

lemma applyDiscount_general:
  "applyDiscounts (config L) \<Longrightarrow>
   applyDiscount L p =
     Math_round (of_int p * (1 - (case buyDiscount L of None \<Rightarrow> 0 | Some d \<Rightarrow> d)))"
  by (simp add: applyDiscount_def)

lemma Math_round_of_int: "Math_round (of_int p) = p"
proof -
  have "\<lfloor>(of_int p :: rat) + 1 / 2\<rfloor> = p"
    by (rule floor_unique) simp_all
  then show ?thesis by (simp add: Math_round_def)
qed

lemma applyDiscount_as_assigned:
  "buyDiscount L = None \<or> buyDiscount L = Some getBuyDiscount \<Longrightarrow> applyDiscount L p = p"
  by (auto simp: applyDiscount_def getBuyDiscount_def Math_round_of_int)

lemma tryToBuy_then_purchase:
  assumes "success resp"
  shows "\<exists>b. tryToBuy_then L inst uprice resp = Inr b
             \<and> uiId b = response_id resp
             \<and> bought_classId b = classId inst
             \<and> bought_instanceId b = instanceId inst
             \<and> bought_price b
                 = applyDiscount L
                     (case min_price inst of
                        None \<Rightarrow> uprice
                      | Some m \<Rightarrow> if m \<noteq> 0 then m else uprice)
             \<and> offerPrice b = min_price inst"
  using assms by (simp add: tryToBuy_then_def)

lemma attemptInstance_min_price_unset:
  "\<not> hackExpiredOffers (config L) \<or> queue = [] \<Longrightarrow>
   min_price (attemptInstance L first queue) = min_price first"
  by (auto simp: attemptInstance_def)

text \<open>
  Claim C9, on the code: the only offer of an array, as \<open>getItemOffers\<close> builds it, is
  bought; the result has the class and instance of the offer and its price, and no
  \<open>offerPrice\<close>, for \<open>min_price\<close> was never set.
\<close>

theorem single_offer_offerPrice_absent:
  "fst (buyCheapest (scripted_layer True None) [listing 100] None
          (fresh [Resolved \<lparr>success = True, response_id = 7\<rparr>]))
     = Inr \<lparr>uiId = 7, bought_classId = ''310776'', bought_instanceId = ''188530139'',
            bought_price = 100, offerPrice = None\<rparr>"
proof -
  let ?L = "scripted_layer True None"
  let ?ok = "Resolved \<lparr>success = True, response_id = 7\<rparr>"
  let ?bought = "\<lparr>uiId = 7, bought_classId = ''310776'', bought_instanceId = ''188530139'',
            bought_price = 100, offerPrice = None\<rparr>"
  have ai: "attemptInstance ?L (listing 100) [] = listing 100" by (simp add: attemptInstance_def)
  have adm: "\<not> price (attemptInstance ?L (listing 100) []) > getAccountBalance ?L"
    unfolding ai
    by (simp add: listing_def getAccountBalance_def scripted_layer_sel Number_MAX_VALUE_def)
  have s: "tryToBuy_settle ?L (listing 100) (price (listing 100)) ?ok = Inr (Some ?bought)"
    by (simp add: tryToBuy_settle_def tryToBuy_then_def applyDiscount_def scripted_layer_sel
        listing_def)
  have w: "world (fresh [?ok]) = [?ok]" by (simp add: fresh_def)
  from scripted_tryToBuy[OF w, of True None "listing 100" None] s
  obtain rm1 where "tryToBuy ?L (attemptInstance ?L (listing 100) []) None (fresh [?ok])
                      = (Inr (Some ?bought), rm1)"
    by (simp add: ai)
  from buyAttempt_bought[OF adm this] show ?thesis by (simp add: buyCheapest_def)
qed

section \<open>Properties of the offer lookup\<close>

lemma prepareOffers_set:
  "set (prepareOffers allowed mhn items) =
     {item \<in> set items. price item \<le> allowed
        \<and> (case offers item of None \<Rightarrow> False | Some n \<Rightarrow> n > 0) \<and> hashName item = mhn}"
  by (auto simp: prepareOffers_def)

lemma prepareOffers_sorted: "sorted (map price (prepareOffers allowed mhn items))"
  by (simp add: prepareOffers_def)

lemma getItemOffers_Inr:
  assumes "getItemOffers L mhn maxPrice rm = (Inr queue, rm')"
  shows "\<exists>items. queue = prepareOffers (allowedPrice L maxPrice) mhn (extractOffers L items)
                 \<and> queue \<noteq> []"
  using assms
  by (auto simp: getItemOffers_def Let_def MiddlewareError_def
      split: prod.splits if_splits option.splits)

lemma shelf_search:
  "call_searchV2ItemByHash shelf_layer mhn (fresh w) = (w, (fresh w)\<lparr>search_calls := [mhn]\<rparr>)"
  by (simp add: call_searchV2ItemByHash_def shelf_layer_def shelf_api_def fresh_def)

lemma shelf_extract: "extractOffers shelf_layer (map raw_listing ps) = map listing ps"
  by (simp add: extractOffers_def shelf_layer_def shelf_api_def raw_listing_def listing_def)

lemma shelf_preparePrice: "preparePrice (config shelf_layer) p = p"
  by (simp add: shelf_layer_def)

lemma shelf_run:
  "getItemOffers shelf_layer ''AK-47 | Redline'' (Some 120)
     (fresh (shelf [raw_listing 150, raw_listing 100, raw_listing 110]))
   = (Inr [listing 100, listing 110],
      (fresh (shelf [raw_listing 150, raw_listing 100, raw_listing 110]))
        \<lparr>search_calls := [''AK-47 | Redline'']\<rparr>)"
proof -
  have e: "extractOffers shelf_layer [raw_listing 150, raw_listing 100, raw_listing 110]
          = [listing 150, listing 100, listing 110]"
    using shelf_extract[of "[150, 100, 110]"] by simp
  show ?thesis
    by (simp add: getItemOffers_def shelf_search shelf_def Let_def allowedPrice_def e
        prepareOffers_def listing_def shelf_preparePrice)
qed

lemma Math_min_Min: "xs \<noteq> [] \<Longrightarrow> Math_min xs = Num (Min (set xs))"
  by (cases xs) (simp_all add: Min.set_eq_fold[symmetric])

lemma extractOffers_prices: "map price (extractOffers L items) = map item_price items"
  by (simp add: extractOffers_def Let_def)

lemma prepareOffers_empty:
  "prepareOffers allowed mhn items = [] \<longleftrightarrow>
     (\<forall>item \<in> set items. \<not> (price item \<le> allowed
        \<and> (\<exists>n. offers item = Some n \<and> 0 < n) \<and> hashName item = mhn))"
proof -
  have "prepareOffers allowed mhn items = [] \<longleftrightarrow> set (prepareOffers allowed mhn items) = {}"
    by simp
  also have "\<dots> \<longleftrightarrow> (\<forall>item \<in> set items. \<not> (price item \<le> allowed
        \<and> (\<exists>n. offers item = Some n \<and> 0 < n) \<and> hashName item = mhn))"
    unfolding prepareOffers_set by (auto split: option.splits)
  finally show ?thesis .
qed

subsection \<open>The queue \<open>getItemOffers\<close> returns\<close>

text \<open>
  Claim C6, as the code has it. Every offer of the array \<open>getItemOffers\<close> returns has a
  listing count above 0 and the hash name asked for, and, when a ceiling other than 0
  was given, a price within \<open>preparePrice\<close> of that ceiling; the array is sorted by price
  and is not empty. (A ceiling of 0 counts as no ceiling: the counterexample.)
\<close>

theorem getItemOffers_queue:
  assumes "getItemOffers L mhn maxPrice rm = (Inr queue, rm')"
  shows "(\<forall>item \<in> set queue.
            (\<forall>c. maxPrice = Some c \<and> c \<noteq> 0 \<longrightarrow> price item \<le> preparePrice (config L) c)
            \<and> (\<exists>n. offers item = Some n \<and> 0 < n)
            \<and> hashName item = mhn)
       \<and> sorted (map price queue)
       \<and> queue \<noteq> []"
proof -
  from getItemOffers_Inr[OF assms] obtain items where
    q: "queue = prepareOffers (allowedPrice L maxPrice) mhn (extractOffers L items)"
    and ne: "queue \<noteq> []"
    by blast
  have "\<forall>item \<in> set queue.
            (\<forall>c. maxPrice = Some c \<and> c \<noteq> 0 \<longrightarrow> price item \<le> preparePrice (config L) c)
            \<and> (\<exists>n. offers item = Some n \<and> 0 < n)
            \<and> hashName item = mhn"
    unfolding q prepareOffers_set
    by (auto simp: allowedPrice_def split: option.splits)
  moreover have "sorted (map price queue)" unfolding q by (rule prepareOffers_sorted)
  ultimately show ?thesis using ne by simp
qed

theorem getItemOffers_queue_witness:
  "getItemOffers shelf_layer ''AK-47 | Redline'' (Some 120)
     (fresh (shelf [raw_listing 150, raw_listing 100, raw_listing 110]))
   = (Inr [listing 100, listing 110],
      (fresh (shelf [raw_listing 150, raw_listing 100, raw_listing 110]))
        \<lparr>search_calls := [''AK-47 | Redline'']\<rparr>)
   \<and> price (listing 100) \<le> preparePrice (config shelf_layer) 120
   \<and> price (listing 110) \<le> preparePrice (config shelf_layer) 120
   \<and> hashName (listing 100) = ''AK-47 | Redline''
   \<and> sorted (map price [listing 100, listing 110])"
  using getItemOffers_queue[OF shelf_run] shelf_run by (simp add: shelf_preparePrice)

theorem zero_ceiling_counterexample:
  "fst (getItemOffers shelf_layer ''AK-47 | Redline'' (Some 0) (fresh (shelf [raw_listing 100])))
     = Inr [listing 100]
   \<and> price (listing 100) > preparePrice (config shelf_layer) 0
   \<and> price (listing 100) > 0"
proof -
  have e: "extractOffers shelf_layer [raw_listing 100] = [listing 100]"
    using shelf_extract[of "[100]"] by simp
  show ?thesis
    by (simp add: getItemOffers_def shelf_search shelf_def Let_def allowedPrice_def e
        prepareOffers_def listing_def shelf_preparePrice Number_MAX_VALUE_def)
qed

subsection \<open>The failures of \<open>getItemOffers\<close>\<close>

text \<open>
  Claim C7. When the search does not report success \<open>getItemOffers\<close> fails with
  \<open>RequestFailed\<close> (source \<open>Market\<close>); when it reports success with no items, with
  \<open>NotFound\<close> (source \<open>Market\<close>); and when there are items and none of them passes the
  filters, with \<open>TooHighPrices\<close> (source \<open>Owner\<close>) and the least price of the items as
  \<open>lowestPrice\<close>.
\<close>

theorem getItemOffers_failures:
  assumes "fst (searchV2ItemByHash (api L) (world rm) mhn) = itemVariants"
  shows "(\<not> success itemVariants \<longrightarrow>
            fst (getItemOffers L mhn maxPrice rm)
              = Inl (MiddlewareError RequestFailed (Some Market) []))
       \<and> (success itemVariants \<and> (data itemVariants = None \<or> data itemVariants = Some []) \<longrightarrow>
            fst (getItemOffers L mhn maxPrice rm)
              = Inl (MiddlewareError NotFound (Some Market) []))
       \<and> (success itemVariants \<and> data itemVariants = Some items \<and> items \<noteq> []
            \<and> (\<forall>item \<in> set (extractOffers L items).
                  \<not> (price item \<le> allowedPrice L maxPrice
                      \<and> (\<exists>n. offers item = Some n \<and> 0 < n)
                      \<and> hashName item = mhn)) \<longrightarrow>
            fst (getItemOffers L mhn maxPrice rm)
              = Inl (MiddlewareError TooHighPrices (Some Owner)
                       [(''lowestPrice'', Num (Min (set (map item_price items))))]))"
proof -
  obtain rm' where c: "call_searchV2ItemByHash L mhn rm = (itemVariants, rm')"
    using assms by (cases "searchV2ItemByHash (api L) (world rm) mhn")
      (simp add: call_searchV2ItemByHash_def)
  have a: "fst (getItemOffers L mhn maxPrice rm)
              = Inl (MiddlewareError RequestFailed (Some Market) [])"
    if "\<not> success itemVariants"
    using that c by (simp add: getItemOffers_def)
  have b: "fst (getItemOffers L mhn maxPrice rm)
              = Inl (MiddlewareError NotFound (Some Market) [])"
    if "success itemVariants" "data itemVariants = None \<or> data itemVariants = Some []"
    using that c by (auto simp: getItemOffers_def)
  have d: "fst (getItemOffers L mhn maxPrice rm)
              = Inl (MiddlewareError TooHighPrices (Some Owner)
                       [(''lowestPrice'', Num (Min (set (map item_price items))))])"
    if "success itemVariants" "data itemVariants = Some items" "items \<noteq> []"
      "\<forall>item \<in> set (extractOffers L items).
                  \<not> (price item \<le> allowedPrice L maxPrice
                      \<and> (\<exists>n. offers item = Some n \<and> 0 < n)
                      \<and> hashName item = mhn)"
  proof -
    have "prepareOffers (allowedPrice L maxPrice) mhn (extractOffers L items) = []"
      using that(4) by (simp only: prepareOffers_empty)
    moreover have "Math_min (map price (extractOffers L items))
                     = Num (Min (set (map item_price items)))"
      using that(3) by (simp add: extractOffers_prices Math_min_Min)
    ultimately show ?thesis using that(1,2,3) c by (simp add: getItemOffers_def Let_def)
  qed
  from a b d show ?thesis by blast
qed

theorem getItemOffers_failures_witness:
  "\<not> success \<lparr>success = False, data = Some [raw_listing 150]\<rparr>
   \<and> fst (getItemOffers shelf_layer ''AK-47 | Redline'' (Some 120)
            (fresh \<lparr>success = False, data = Some [raw_listing 150]\<rparr>))
        = Inl (MiddlewareError RequestFailed (Some Market) [])
   \<and> success (shelf []) \<and> data (shelf []) = Some []
   \<and> fst (getItemOffers shelf_layer ''AK-47 | Redline'' (Some 120) (fresh (shelf [])))
        = Inl (MiddlewareError NotFound (Some Market) [])
   \<and> success (shelf [raw_listing 150, raw_listing 130])
   \<and> \<not> price (listing 150) \<le> allowedPrice shelf_layer (Some 120)
   \<and> \<not> price (listing 130) \<le> allowedPrice shelf_layer (Some 120)
   \<and> fst (getItemOffers shelf_layer ''AK-47 | Redline'' (Some 120)
            (fresh (shelf [raw_listing 150, raw_listing 130])))
        = Inl (MiddlewareError TooHighPrices (Some Owner) [(''lowestPrice'', Num 130)])"
proof -
  have s: "fst (searchV2ItemByHash (api shelf_layer) (world (fresh w)) ''AK-47 | Redline'') = w"
    for w
    by (simp add: shelf_layer_def shelf_api_def fresh_def)
  have e: "extractOffers shelf_layer [raw_listing 150, raw_listing 130]
             = [listing 150, listing 130]"
    using shelf_extract[of "[150, 130]"] by simp
  have p: "\<not> price (listing 150) \<le> allowedPrice shelf_layer (Some 120)"
          "\<not> price (listing 130) \<le> allowedPrice shelf_layer (Some 120)"
    by (simp_all add: allowedPrice_def shelf_preparePrice listing_def)
  have m: "Min (set (map item_price [raw_listing 150, raw_listing 130])) = 130"
    by (simp add: raw_listing_def)
  note t1 = getItemOffers_failures[OF s, of "\<lparr>success = False, data = Some [raw_listing 150]\<rparr>"
      "Some 120" "[]"]
  note t2 = getItemOffers_failures[OF s, of "shelf []" "Some 120" "[]"]
  note t3 = getItemOffers_failures[OF s, of "shelf [raw_listing 150, raw_listing 130]" "Some 120"
      "[raw_listing 150, raw_listing 130]"]
  have r1: "fst (getItemOffers shelf_layer ''AK-47 | Redline'' (Some 120)
            (fresh \<lparr>success = False, data = Some [raw_listing 150]\<rparr>))
        = Inl (MiddlewareError RequestFailed (Some Market) [])"
    using t1 by simp
  have r2: "fst (getItemOffers shelf_layer ''AK-47 | Redline'' (Some 120) (fresh (shelf [])))
        = Inl (MiddlewareError NotFound (Some Market) [])"
    using t2 by (simp add: shelf_def)
  have r3: "fst (getItemOffers shelf_layer ''AK-47 | Redline'' (Some 120)
            (fresh (shelf [raw_listing 150, raw_listing 130])))
        = Inl (MiddlewareError TooHighPrices (Some Owner) [(''lowestPrice'', Num 130)])"
  proof -
    have h: "\<forall>item \<in> set (extractOffers shelf_layer [raw_listing 150, raw_listing 130]).
               \<not> (price item \<le> allowedPrice shelf_layer (Some 120)
                   \<and> (\<exists>n. offers item = Some n \<and> 0 < n)
                   \<and> hashName item = ''AK-47 | Redline'')"
      using p by (simp add: e)
    have "fst (getItemOffers shelf_layer ''AK-47 | Redline'' (Some 120)
            (fresh (shelf [raw_listing 150, raw_listing 130])))
        = Inl (MiddlewareError TooHighPrices (Some Owner)
                 [(''lowestPrice'',
                   Num (Min (set (map item_price [raw_listing 150, raw_listing 130]))))])"
      using t3 h by (simp add: shelf_def)
    then show ?thesis by (simp only: m)
  qed
  show ?thesis using r1 r2 r3 p by (simp add: shelf_def)
qed

section \<open>Properties of the history search\<close>

lemma getItem_window:
  assumes "alignDate L G (Some t) = Inr (Some T)"
    and "accountV2GetHistory (api L) (world rm) (T - margin) (T + margin) = (h, w')"
  shows "getItem L G marketId (Some t) margin rm =
           ((if success h
             then (case itemBuyEvent G marketId (data h) of
                     None \<Rightarrow> Inl (MiddlewareError NotFound None [])
                   | Some ev \<Rightarrow> Inr ev)
             else Inl (MiddlewareError HistoryFailed None [])),
            rm\<lparr>world := w', history_calls := history_calls rm @ [(T - margin, T + margin)]\<rparr>)"
  using assms
  by (auto simp: getItem_def getBoughtItems_def call_accountV2GetHistory_def itemBuyEvent_def
      Let_def split: option.splits)


lemma alignDate_plain: "\<not> handleTimezone (config L) \<Longrightarrow> alignDate L G d = Inr d"
  by (simp add: alignDate_def)

lemma alignDate_given:
  "alignDate L G (Some t) =
     Inr (Some (if handleTimezone (config L) then t + getTimezoneOffset G t * 60 * 1000 else t))"
  by (simp add: alignDate_def Let_def)

lemma ledger_history:
  "accountV2GetHistory (api (ledger_layer tz time ev)) w start end' =
     (\<lparr>success = True, data = (if start \<le> time \<and> time \<le> end' then [ev] else [])\<rparr>, w)"
  by (simp add: ledger_layer_def ledger_api_def)

lemma ledger_handleTimezone: "handleTimezone (config (ledger_layer tz time ev)) = tz"
  by (simp add: ledger_layer_def)

lemma itemBuyEvent_7:
  "itemBuyEvent (zone_runtime z) 7 [buy_event_7] = Some buy_event_7"
  "itemBuyEvent (zone_runtime z) 7 [] = None"
  by (simp_all add: itemBuyEvent_def zone_runtime_def buy_event_7_def)

text \<open>
  Claim C8, as the code has it. Let \<open>T\<close> be the date \<open>getBoughtItems\<close> searches around:
  the given date, moved by its time zone offset when \<open>handleTimezone\<close> is on.
  \<open>getItemState\<close> first asks for the history from \<open>T\<close> - 45 s to \<open>T\<close> + 45 s. When that
  answer reports success and holds no buy event of the item, it asks once more, from
  \<open>T\<close> - 5 min to \<open>T\<close> + 5 min, and no further; when the second answer reports success
  and holds the buy event, with a stage \<open>EMarketEventStage\<close> has, the result is that stage;
  when it holds none, the failure is \<open>NotFound\<close> with the item's id in \<open>marketId\<close>.
\<close>

theorem getItemState_two_phase:
  assumes "alignDate L G (Some t) = Inr (Some T)"
    and "accountV2GetHistory (api L) (world rm) (T - 45 * 1000) (T + 45 * 1000) = (h1, w1)"
    and "accountV2GetHistory (api L) w1 (T - 5 * 60 * 1000) (T + 5 * 60 * 1000) = (h2, w2)"
  shows "(\<not> handleTimezone (config L) \<longrightarrow> T = t)
       \<and> (\<exists>more. history_calls (snd (getItemState L G marketId (Some t) rm))
                   = history_calls rm @ (T - 45 * 1000, T + 45 * 1000) # more)
       \<and> (success h1 \<and> itemBuyEvent G marketId (data h1) = None \<longrightarrow>
            history_calls (snd (getItemState L G marketId (Some t) rm))
              = history_calls rm @ [(T - 45 * 1000, T + 45 * 1000),
                                    (T - 5 * 60 * 1000, T + 5 * 60 * 1000)]
            \<and> (\<forall>ev. success h2 \<and> itemBuyEvent G marketId (data h2) = Some ev
                      \<and> EMarketEventStage_has G (stage ev) \<longrightarrow>
                     fst (getItemState L G marketId (Some t) rm) = Inr (stage ev))
            \<and> (success h2 \<and> itemBuyEvent G marketId (data h2) = None \<longrightarrow>
                 fst (getItemState L G marketId (Some t) rm)
                   = Inl ((MiddlewareError NotFound None [])\<lparr>err_marketId := Some marketId\<rparr>)))"
proof -
  let ?w1 = "(T - 45000, T + 45000)"
  let ?w2 = "(T - 300000, T + 300000)"
  let ?rm1 = "rm\<lparr>world := w1, history_calls := history_calls rm @ [?w1]\<rparr>"
  let ?rm2 = "?rm1\<lparr>world := w2, history_calls := history_calls ?rm1 @ [?w2]\<rparr>"
  have g1: "getItem L G marketId (Some t) initialMargin rm =
           ((if success h1
             then (case itemBuyEvent G marketId (data h1) of
                     None \<Rightarrow> Inl (MiddlewareError NotFound None [])
                   | Some ev \<Rightarrow> Inr ev)
             else Inl (MiddlewareError HistoryFailed None [])), ?rm1)"
    using getItem_window[OF assms(1), of rm initialMargin h1 w1 marketId] assms(2)
    by (simp add: initialMargin_def)
  have g2: "getItem L G marketId (Some t) extendedMargin ?rm1 =
           ((if success h2
             then (case itemBuyEvent G marketId (data h2) of
                     None \<Rightarrow> Inl (MiddlewareError NotFound None [])
                   | Some ev \<Rightarrow> Inr ev)
             else Inl (MiddlewareError HistoryFailed None [])), ?rm2)"
    using getItem_window[OF assms(1), of ?rm1 extendedMargin h2 w2 marketId] assms(3)
    by (simp add: extendedMargin_def)
  have tz: "\<not> handleTimezone (config L) \<longrightarrow> T = t"
    using assms(1) by (auto simp: alignDate_plain)
  have calls: "history_calls (snd (getItemState L G marketId (Some t) rm)) = history_calls rm @ [?w1]
             \<or> history_calls (snd (getItemState L G marketId (Some t) rm))
                  = history_calls rm @ [?w1, ?w2]"
    by (simp add: getItemState_def makeRequests_def g1 g2 Let_def MiddlewareError_def
        split: option.splits)
  then have first: "\<exists>more. history_calls (snd (getItemState L G marketId (Some t) rm))
                   = history_calls rm @ ?w1 # more"
    by auto
  have second: "history_calls (snd (getItemState L G marketId (Some t) rm))
              = history_calls rm @ [?w1, ?w2]
            \<and> (\<forall>ev. success h2 \<and> itemBuyEvent G marketId (data h2) = Some ev
                      \<and> EMarketEventStage_has G (stage ev) \<longrightarrow>
                     fst (getItemState L G marketId (Some t) rm) = Inr (stage ev))
            \<and> (success h2 \<and> itemBuyEvent G marketId (data h2) = None \<longrightarrow>
                 fst (getItemState L G marketId (Some t) rm)
                   = Inl ((MiddlewareError NotFound None [])\<lparr>err_marketId := Some marketId\<rparr>))"
    if "success h1" "itemBuyEvent G marketId (data h1) = None"
    using that
    by (simp add: getItemState_def makeRequests_def g1 g2 Let_def MiddlewareError_def
        split: option.splits)
  have n: "(45::int) * 1000 = 45000" "(5::int) * 60 * 1000 = 300000" by simp_all
  show ?thesis unfolding n using tz first second by blast
qed


theorem getItemState_two_phase_witness:
  "alignDate (ledger_layer False 1700000060000 buy_event_7) (zone_runtime 0) (Some 1700000000000)
     = Inr (Some 1700000000000)
   \<and> itemBuyEvent (zone_runtime 0) 7 [] = None
   \<and> itemBuyEvent (zone_runtime 0) 7 [buy_event_7] = Some buy_event_7
   \<and> EMarketEventStage_has (zone_runtime 0) (stage buy_event_7)
   \<and> history_calls (snd (getItemState (ledger_layer False 1700000060000 buy_event_7)
                             (zone_runtime 0) 7 (Some 1700000000000) (fresh ())))
       = [(1699999955000, 1700000045000), (1699999700000, 1700000300000)]
   \<and> fst (getItemState (ledger_layer False 1700000060000 buy_event_7)
             (zone_runtime 0) 7 (Some 1700000000000) (fresh ())) = Inr 2
   \<and> fst (getItemState (ledger_layer False 1700000900000 buy_event_7)
             (zone_runtime 0) 7 (Some 1700000000000) (fresh ()))
       = Inl ((MiddlewareError NotFound None [])\<lparr>err_marketId := Some 7\<rparr>)"
proof -
  let ?G = "zone_runtime 0"
  let ?L = "ledger_layer False 1700000060000 buy_event_7"
  let ?M = "ledger_layer False 1700000900000 buy_event_7"
  let ?none = "\<lparr>success = True, data = []\<rparr> :: (history_event list) data_response"
  let ?one = "\<lparr>success = True, data = [buy_event_7]\<rparr>"
  have aL: "alignDate ?L ?G (Some 1700000000000) = Inr (Some 1700000000000)"
    and aM: "alignDate ?M ?G (Some 1700000000000) = Inr (Some 1700000000000)"
    by (simp_all add: alignDate_given ledger_handleTimezone)
  have L1: "accountV2GetHistory (api ?L) (world (fresh ())) (1700000000000 - 45 * 1000)
              (1700000000000 + 45 * 1000) = (?none, ())"
    and L2: "accountV2GetHistory (api ?L) () (1700000000000 - 5 * 60 * 1000)
              (1700000000000 + 5 * 60 * 1000) = (?one, ())"
    and M1: "accountV2GetHistory (api ?M) (world (fresh ())) (1700000000000 - 45 * 1000)
              (1700000000000 + 45 * 1000) = (?none, ())"
    and M2: "accountV2GetHistory (api ?M) () (1700000000000 - 5 * 60 * 1000)
              (1700000000000 + 5 * 60 * 1000) = (?none, ())"
    by (simp_all add: ledger_history)
  have st: "EMarketEventStage_has ?G (stage buy_event_7)" "stage buy_event_7 = 2"
    by (simp_all add: zone_runtime_def buy_event_7_def)
  note tL = getItemState_two_phase[OF aL L1 L2, of 7]
  note tM = getItemState_two_phase[OF aM M1 M2, of 7]
  have rL: "history_calls (snd (getItemState ?L ?G 7 (Some 1700000000000) (fresh ())))
              = [(1699999955000, 1700000045000), (1699999700000, 1700000300000)]"
           "fst (getItemState ?L ?G 7 (Some 1700000000000) (fresh ())) = Inr 2"
    using tL st by (simp_all add: itemBuyEvent_7 fresh_def)
  have rM: "fst (getItemState ?M ?G 7 (Some 1700000000000) (fresh ()))
              = Inl ((MiddlewareError NotFound None [])\<lparr>err_marketId := Some 7\<rparr>)"
    using tM by (simp add: itemBuyEvent_7)
  show ?thesis using aL st rL rM by (simp add: itemBuyEvent_7)
qed

theorem timezone_shift_counterexample:
  "1700000000000 - 5 * 60 * 1000 \<le> (1700000060000 :: int)
   \<and> (1700000060000 :: int) \<le> 1700000000000 + 5 * 60 * 1000
   \<and> \<not> (1700000060000 :: int) \<le> 1700000000000 + 45 * 1000
   \<and> itemBuyEvent (zone_runtime (- 180)) 7 [buy_event_7] = Some buy_event_7
   \<and> EMarketEventStage_has (zone_runtime (- 180)) (stage buy_event_7)
   \<and> history_calls (snd (getItemState (ledger_layer True 1700000060000 buy_event_7)
                             (zone_runtime (- 180)) 7 (Some 1700000000000) (fresh ())))
       = [(1699989155000, 1699989245000), (1699988900000, 1699989500000)]
   \<and> fst (getItemState (ledger_layer True 1700000060000 buy_event_7)
             (zone_runtime (- 180)) 7 (Some 1700000000000) (fresh ()))
       = Inl ((MiddlewareError NotFound None [])\<lparr>err_marketId := Some 7\<rparr>)"
proof -
  let ?G = "zone_runtime (- 180)"
  let ?L = "ledger_layer True 1700000060000 buy_event_7"
  let ?none = "\<lparr>success = True, data = []\<rparr> :: (history_event list) data_response"
  let ?rm1 = "(fresh ())\<lparr>world := (), history_calls := history_calls (fresh ())
                @ [(1699989155000, 1699989245000)]\<rparr>"
  let ?rm2 = "?rm1\<lparr>world := (), history_calls := history_calls ?rm1
                @ [(1699988900000, 1699989500000)]\<rparr>"
  have a: "alignDate ?L ?G (Some 1700000000000) = Inr (Some 1699989200000)"
    by (simp add: alignDate_given ledger_handleTimezone zone_runtime_def)
  have g1: "getItem ?L ?G 7 (Some 1700000000000) initialMargin (fresh ())
              = (Inl (MiddlewareError NotFound None []), ?rm1)"
    using getItem_window[OF a, of "fresh ()" 45000 ?none "()" 7]
    by (simp add: ledger_history itemBuyEvent_7 initialMargin_def)
  have g2: "getItem ?L ?G 7 (Some 1700000000000) extendedMargin ?rm1
              = (Inl (MiddlewareError NotFound None []), ?rm2)"
    using getItem_window[OF a, of ?rm1 300000 ?none "()" 7]
    by (simp add: ledger_history itemBuyEvent_7 extendedMargin_def)
  have r: "getItemState ?L ?G 7 (Some 1700000000000) (fresh ())
             = (Inl ((MiddlewareError NotFound None [])\<lparr>err_marketId := Some 7\<rparr>), ?rm2)"
    by (simp add: getItemState_def makeRequests_def g1 g2 MiddlewareError_def)
  have st: "EMarketEventStage_has ?G (stage buy_event_7)"
    by (simp add: zone_runtime_def buy_event_7_def)
  have c: "history_calls (snd (getItemState ?L ?G 7 (Some 1700000000000) (fresh ())))
             = [(1699989155000, 1699989245000), (1699988900000, 1699989500000)]"
    unfolding r by (simp add: fresh_def)
  have f: "fst (getItemState ?L ?G 7 (Some 1700000000000) (fresh ()))
             = Inl ((MiddlewareError NotFound None [])\<lparr>err_marketId := Some 7\<rparr>)"
    unfolding r by simp
  show ?thesis using st c f by (simp add: itemBuyEvent_7)
qed

end
